theory Spec2Isabelle
  imports Complex_Main
begin

section \<open>Values shared by the components\<close>

text \<open>
  A rejected promise or a wire adapter's error. The handlers read one thing of it, the
  optional chain \<open>error.body?.message\<close>, which is the \<open>string option\<close> carried here
  (\<open>None\<close> when the error has no body or the body no message).
\<close>

datatype js_error = JsError "string option"

text \<open>The way an awaited remote call settles.\<close>

datatype 'a outcome = Resolved 'a | Rejected js_error

text \<open>
  \<open>error.body?.message || fallback\<close>: the fallback is taken when the message is missing
  or is the empty string (falsy).
\<close>

definition message_or :: "js_error \<Rightarrow> string \<Rightarrow> string" where
  "message_or e fallback =
     (case e of
        JsError None \<Rightarrow> fallback
      | JsError (Some m) \<Rightarrow> (if m = [] then fallback else m))"

text \<open>
  What a handler does to the outside, recorded in program order: a dispatched
  \<open>ShowToastEvent\<close> (title, message, variant), a dispatched \<open>CloseActionScreenEvent\<close>,
  a \<open>console.error\<close> (its label), and the start of a remote call (the imported name).
\<close>

datatype effect =
    Toast string string string
  | CloseActionScreen
  | ConsoleError string
  | RemoteCall string

text \<open>
  What a wire adapter provisions, to a function or to a property: data, an error, or
  neither yet.
\<close>

record 'a wire_result =
  wr_data :: "'a option"
  wr_error :: "js_error option"

text \<open>A number inside a template literal: its decimal digits.\<close>

definition digit :: "nat \<Rightarrow> char" where
  "digit d =
     (if d = 0 then CHR ''0'' else if d = 1 then CHR ''1'' else if d = 2 then CHR ''2''
      else if d = 3 then CHR ''3'' else if d = 4 then CHR ''4'' else if d = 5 then CHR ''5''
      else if d = 6 then CHR ''6'' else if d = 7 then CHR ''7'' else if d = 8 then CHR ''8''
      else CHR ''9'')"

fun show_nat :: "nat \<Rightarrow> string" where
  "show_nat n = (if n < 10 then [digit n] else show_nat (n div 10) @ [digit (n mod 10)])"

declare show_nat.simps [simp del]

section \<open>Building asset map\<close>

subsection \<open>Telemetry attributes and the threshold classifier\<close>

text \<open>
  An entry of an asset's \<open>attributes\<close> array in \<open>loadHavenDataCenterAssets\<close>. Every
  value and threshold of the hardcoded data set is a finite decimal literal, so the
  numbers are rationals here, and less-than and greater-than on them are the JavaScript
  comparisons of these literals. The \<open>unit\<close> field (display text only, partly non-ASCII)
  is left out.
\<close>

record attr =
  attr_name :: string
  attr_value :: rat
  minThreshold :: rat
  maxThreshold :: rat
  category :: string

text \<open>
  The object \<open>processAttribute\<close> returns: the attribute itself (the spread \<open>...attr\<close>)
  with \<open>status\<close>, \<open>statusClass\<close> and \<open>statusIcon\<close>. The gauge fields (\<open>percentage\<close>,
  \<open>gaugeStyle\<close>) and the formatted display strings are presentation only and not modelled.
\<close>

record processed_attr =
  pa_attr :: attr
  pa_status :: string
  pa_statusClass :: string
  pa_statusIcon :: string

definition processAttribute :: "attr \<Rightarrow> processed_attr" where
  "processAttribute a =
     (if attr_value a < minThreshold a then
        \<lparr>pa_attr = a, pa_status = ''critical'', pa_statusClass = ''attr-critical'',
         pa_statusIcon = ''utility:error''\<rparr>
      else if attr_value a > maxThreshold a then
        \<lparr>pa_attr = a, pa_status = ''warning'', pa_statusClass = ''attr-warning'',
         pa_statusIcon = ''utility:warning''\<rparr>
      else
        \<lparr>pa_attr = a, pa_status = ''normal'', pa_statusClass = ''attr-normal'',
         pa_statusIcon = ''utility:success''\<rparr>)"

subsection \<open>The hardcoded data set\<close>

text \<open>
  An asset literal of \<open>loadHavenDataCenterAssets\<close>: its id, name, type, status and
  attributes. Room, rack, position, serial number, manufacturer, model, service date, icon
  and coordinates are display data that no handler branches on; they are left out.
\<close>

record asset =
  asset_id :: string
  asset_name :: string
  asset_type :: string
  asset_status :: string
  attributes :: "attr list"

definition asset_haven_olt_001 :: asset where
  "asset_haven_olt_001 =
     \<lparr>asset_id = ''haven-olt-001'', asset_name = ''OLT-A01-001'', asset_type = ''Optical Line Terminal'',
      asset_status = ''Active'',
      attributes = [
        \<lparr>attr_name = ''Temperature'', attr_value = 42, minThreshold = 10,
         maxThreshold = 65, category = ''Environmental''\<rparr>,
        \<lparr>attr_name = ''CPU Utilization'', attr_value = 38, minThreshold = 0,
         maxThreshold = 85, category = ''Performance''\<rparr>,
        \<lparr>attr_name = ''Memory Usage'', attr_value = 52, minThreshold = 0,
         maxThreshold = 90, category = ''Performance''\<rparr>,
        \<lparr>attr_name = ''Optical Power Rx'', attr_value = (-18.5), minThreshold = (-28),
         maxThreshold = (-8), category = ''Signal''\<rparr>,
        \<lparr>attr_name = ''Active PON Ports'', attr_value = 14, minThreshold = 1,
         maxThreshold = 16, category = ''Connectivity''\<rparr>,
        \<lparr>attr_name = ''Uptime'', attr_value = 99.98, minThreshold = 99,
         maxThreshold = 100, category = ''Availability''\<rparr>]\<rparr>"

definition asset_haven_olt_002 :: asset where
  "asset_haven_olt_002 =
     \<lparr>asset_id = ''haven-olt-002'', asset_name = ''OLT-A01-002'', asset_type = ''Optical Line Terminal'',
      asset_status = ''Warning'',
      attributes = [
        \<lparr>attr_name = ''Temperature'', attr_value = 72, minThreshold = 10,
         maxThreshold = 65, category = ''Environmental''\<rparr>,
        \<lparr>attr_name = ''CPU Utilization'', attr_value = 92, minThreshold = 0,
         maxThreshold = 85, category = ''Performance''\<rparr>,
        \<lparr>attr_name = ''Memory Usage'', attr_value = 88, minThreshold = 0,
         maxThreshold = 90, category = ''Performance''\<rparr>,
        \<lparr>attr_name = ''Optical Power Rx'', attr_value = (-26.5), minThreshold = (-28),
         maxThreshold = (-8), category = ''Signal''\<rparr>,
        \<lparr>attr_name = ''Active PON Ports'', attr_value = 16, minThreshold = 1,
         maxThreshold = 16, category = ''Connectivity''\<rparr>,
        \<lparr>attr_name = ''Uptime'', attr_value = 98.2, minThreshold = 99,
         maxThreshold = 100, category = ''Availability''\<rparr>]\<rparr>"

definition asset_sea_002 :: asset where
  "asset_sea_002 =
     \<lparr>asset_id = ''sea-002'', asset_name = ''CORE-SW-001'', asset_type = ''Core Switch'',
      asset_status = ''Active'',
      attributes = [
        \<lparr>attr_name = ''Temperature'', attr_value = 38, minThreshold = 10,
         maxThreshold = 70, category = ''Environmental''\<rparr>,
        \<lparr>attr_name = ''Throughput'', attr_value = 847, minThreshold = 0,
         maxThreshold = 1000, category = ''Performance''\<rparr>,
        \<lparr>attr_name = ''Packet Loss'', attr_value = 0.001, minThreshold = 0,
         maxThreshold = 0.1, category = ''Performance''\<rparr>,
        \<lparr>attr_name = ''Active Ports'', attr_value = 42, minThreshold = 1,
         maxThreshold = 48, category = ''Connectivity''\<rparr>,
        \<lparr>attr_name = ''Fan Speed'', attr_value = 4200, minThreshold = 2000,
         maxThreshold = 8000, category = ''Environmental''\<rparr>,
        \<lparr>attr_name = ''Power Draw'', attr_value = 2.8, minThreshold = 0,
         maxThreshold = 4.5, category = ''Power''\<rparr>]\<rparr>"

definition asset_sea_003 :: asset where
  "asset_sea_003 =
     \<lparr>asset_id = ''sea-003'', asset_name = ''EDGE-RTR-001'', asset_type = ''Edge Router'',
      asset_status = ''Active'',
      attributes = [
        \<lparr>attr_name = ''Temperature'', attr_value = 45, minThreshold = 10,
         maxThreshold = 65, category = ''Environmental''\<rparr>,
        \<lparr>attr_name = ''BGP Sessions'', attr_value = 28, minThreshold = 1,
         maxThreshold = 50, category = ''Connectivity''\<rparr>,
        \<lparr>attr_name = ''Route Table Size'', attr_value = 892000, minThreshold = 0,
         maxThreshold = 1000000, category = ''Performance''\<rparr>,
        \<lparr>attr_name = ''CPU Utilization'', attr_value = 24, minThreshold = 0,
         maxThreshold = 80, category = ''Performance''\<rparr>,
        \<lparr>attr_name = ''Interface Errors'', attr_value = 0, minThreshold = 0,
         maxThreshold = 100, category = ''Health''\<rparr>,
        \<lparr>attr_name = ''Latency'', attr_value = 1.2, minThreshold = 0,
         maxThreshold = 10, category = ''Performance''\<rparr>]\<rparr>"

definition asset_sea_004 :: asset where
  "asset_sea_004 =
     \<lparr>asset_id = ''sea-004'', asset_name = ''FDP-SEA-001'', asset_type = ''Fiber Distribution Panel'',
      asset_status = ''Active'',
      attributes = [
        \<lparr>attr_name = ''Connected Fibers'', attr_value = 144, minThreshold = 1,
         maxThreshold = 288, category = ''Connectivity''\<rparr>,
        \<lparr>attr_name = ''Avg Insertion Loss'', attr_value = 0.18, minThreshold = 0,
         maxThreshold = 0.5, category = ''Signal''\<rparr>,
        \<lparr>attr_name = ''Temperature'', attr_value = 22, minThreshold = 15,
         maxThreshold = 35, category = ''Environmental''\<rparr>,
        \<lparr>attr_name = ''Humidity'', attr_value = 42, minThreshold = 20,
         maxThreshold = 60, category = ''Environmental''\<rparr>]\<rparr>"

definition asset_sea_005 :: asset where
  "asset_sea_005 =
     \<lparr>asset_id = ''sea-005'', asset_name = ''DWDM-SEA-001'', asset_type = ''DWDM System'',
      asset_status = ''Active'',
      attributes = [
        \<lparr>attr_name = ''Active Wavelengths'', attr_value = 80, minThreshold = 1,
         maxThreshold = 96, category = ''Capacity''\<rparr>,
        \<lparr>attr_name = ''Total Bandwidth'', attr_value = 9.6, minThreshold = 0,
         maxThreshold = 12, category = ''Performance''\<rparr>,
        \<lparr>attr_name = ''OSNR'', attr_value = 28, minThreshold = 18,
         maxThreshold = 40, category = ''Signal''\<rparr>,
        \<lparr>attr_name = ''Amplifier Temp'', attr_value = 35, minThreshold = 10,
         maxThreshold = 50, category = ''Environmental''\<rparr>,
        \<lparr>attr_name = ''Laser Bias Current'', attr_value = 42, minThreshold = 20,
         maxThreshold = 80, category = ''Health''\<rparr>,
        \<lparr>attr_name = ''Chromatic Dispersion'', attr_value = 850, minThreshold = 0,
         maxThreshold = 1500, category = ''Signal''\<rparr>]\<rparr>"

definition asset_sea_006 :: asset where
  "asset_sea_006 =
     \<lparr>asset_id = ''sea-006'', asset_name = ''ROADM-SEA-001'', asset_type = ''ROADM Node'',
      asset_status = ''Active'',
      attributes = [
        \<lparr>attr_name = ''Add/Drop Channels'', attr_value = 16, minThreshold = 0,
         maxThreshold = 20, category = ''Capacity''\<rparr>,
        \<lparr>attr_name = ''Express Channels'', attr_value = 64, minThreshold = 0,
         maxThreshold = 80, category = ''Capacity''\<rparr>,
        \<lparr>attr_name = ''WSS Insertion Loss'', attr_value = 5.2, minThreshold = 0,
         maxThreshold = 8, category = ''Signal''\<rparr>,
        \<lparr>attr_name = ''Power Consumption'', attr_value = 1.8, minThreshold = 0,
         maxThreshold = 3, category = ''Power''\<rparr>,
        \<lparr>attr_name = ''Temperature'', attr_value = 32, minThreshold = 10,
         maxThreshold = 45, category = ''Environmental''\<rparr>]\<rparr>"

definition asset_sea_007 :: asset where
  "asset_sea_007 =
     \<lparr>asset_id = ''sea-007'', asset_name = ''OTN-SW-001'', asset_type = ''OTN Switch'',
      asset_status = ''Warning'',
      attributes = [
        \<lparr>attr_name = ''Temperature'', attr_value = 68, minThreshold = 10,
         maxThreshold = 65, category = ''Environmental''\<rparr>,
        \<lparr>attr_name = ''Fan Status'', attr_value = 3, minThreshold = 4,
         maxThreshold = 6, category = ''Health''\<rparr>,
        \<lparr>attr_name = ''CPU Utilization'', attr_value = 78, minThreshold = 0,
         maxThreshold = 85, category = ''Performance''\<rparr>,
        \<lparr>attr_name = ''FEC Corrections'', attr_value = 245, minThreshold = 0,
         maxThreshold = 100, category = ''Health''\<rparr>,
        \<lparr>attr_name = ''Active ODU Clients'', attr_value = 42, minThreshold = 0,
         maxThreshold = 80, category = ''Capacity''\<rparr>,
        \<lparr>attr_name = ''Power Draw'', attr_value = 4.2, minThreshold = 0,
         maxThreshold = 5, category = ''Power''\<rparr>]\<rparr>"

definition asset_sea_008 :: asset where
  "asset_sea_008 =
     \<lparr>asset_id = ''sea-008'', asset_name = ''BLADE-SEA-001'', asset_type = ''Blade Chassis'',
      asset_status = ''Active'',
      attributes = [
        \<lparr>attr_name = ''Active Blades'', attr_value = 7, minThreshold = 1,
         maxThreshold = 8, category = ''Capacity''\<rparr>,
        \<lparr>attr_name = ''Avg CPU Temp'', attr_value = 58, minThreshold = 10,
         maxThreshold = 85, category = ''Environmental''\<rparr>,
        \<lparr>attr_name = ''Total vCPUs'', attr_value = 448, minThreshold = 0,
         maxThreshold = 512, category = ''Capacity''\<rparr>,
        \<lparr>attr_name = ''Memory Allocated'', attr_value = 2.8, minThreshold = 0,
         maxThreshold = 4, category = ''Capacity''\<rparr>,
        \<lparr>attr_name = ''Network I/O'', attr_value = 185, minThreshold = 0,
         maxThreshold = 400, category = ''Performance''\<rparr>,
        \<lparr>attr_name = ''Power Draw'', attr_value = 8.5, minThreshold = 0,
         maxThreshold = 12, category = ''Power''\<rparr>]\<rparr>"

definition asset_sea_009 :: asset where
  "asset_sea_009 =
     \<lparr>asset_id = ''sea-009'', asset_name = ''STORAGE-SEA-001'', asset_type = ''Storage Array'',
      asset_status = ''Active'',
      attributes = [
        \<lparr>attr_name = ''Capacity Used'', attr_value = 72, minThreshold = 0,
         maxThreshold = 85, category = ''Capacity''\<rparr>,
        \<lparr>attr_name = ''IOPS'', attr_value = 485000, minThreshold = 0,
         maxThreshold = 1000000, category = ''Performance''\<rparr>,
        \<lparr>attr_name = ''Latency'', attr_value = 0.4, minThreshold = 0,
         maxThreshold = 2, category = ''Performance''\<rparr>,
        \<lparr>attr_name = ''Throughput'', attr_value = 18.5, minThreshold = 0,
         maxThreshold = 25, category = ''Performance''\<rparr>,
        \<lparr>attr_name = ''Drive Health'', attr_value = 100, minThreshold = 90,
         maxThreshold = 100, category = ''Health''\<rparr>,
        \<lparr>attr_name = ''Temperature'', attr_value = 28, minThreshold = 15,
         maxThreshold = 40, category = ''Environmental''\<rparr>]\<rparr>"

definition asset_sea_010 :: asset where
  "asset_sea_010 =
     \<lparr>asset_id = ''sea-010'', asset_name = ''BACKUP-SEA-001'', asset_type = ''Backup Appliance'',
      asset_status = ''Active'',
      attributes = [
        \<lparr>attr_name = ''Backup Success Rate'', attr_value = 99.8, minThreshold = 98,
         maxThreshold = 100, category = ''Health''\<rparr>,
        \<lparr>attr_name = ''Dedup Ratio'', attr_value = 4.2, minThreshold = 2,
         maxThreshold = 10, category = ''Efficiency''\<rparr>,
        \<lparr>attr_name = ''Repository Used'', attr_value = 68, minThreshold = 0,
         maxThreshold = 90, category = ''Capacity''\<rparr>,
        \<lparr>attr_name = ''Jobs Running'', attr_value = 3, minThreshold = 0,
         maxThreshold = 12, category = ''Performance''\<rparr>,
        \<lparr>attr_name = ''Last Backup Age'', attr_value = 2.5, minThreshold = 0,
         maxThreshold = 24, category = ''Health''\<rparr>]\<rparr>"

definition asset_haven_ups_001 :: asset where
  "asset_haven_ups_001 =
     \<lparr>asset_id = ''haven-ups-001'', asset_name = ''UPS-A01-001'', asset_type = ''UPS System'',
      asset_status = ''Warning'',
      attributes = [
        \<lparr>attr_name = ''Load'', attr_value = 62, minThreshold = 0,
         maxThreshold = 80, category = ''Capacity''\<rparr>,
        \<lparr>attr_name = ''Battery Health'', attr_value = 68, minThreshold = 70,
         maxThreshold = 100, category = ''Health''\<rparr>,
        \<lparr>attr_name = ''Charge Cycles'', attr_value = 847, minThreshold = 0,
         maxThreshold = 850, category = ''Health''\<rparr>,
        \<lparr>attr_name = ''Input Voltage'', attr_value = 478, minThreshold = 456,
         maxThreshold = 504, category = ''Power''\<rparr>,
        \<lparr>attr_name = ''Output Voltage'', attr_value = 480, minThreshold = 470,
         maxThreshold = 490, category = ''Power''\<rparr>,
        \<lparr>attr_name = ''Battery Temp'', attr_value = 32, minThreshold = 15,
         maxThreshold = 35, category = ''Environmental''\<rparr>,
        \<lparr>attr_name = ''Runtime Remaining'', attr_value = 12, minThreshold = 10,
         maxThreshold = 60, category = ''Health''\<rparr>]\<rparr>"

definition asset_sea_012 :: asset where
  "asset_sea_012 =
     \<lparr>asset_id = ''sea-012'', asset_name = ''PDU-SEA-001'', asset_type = ''Power Distribution'',
      asset_status = ''Active'',
      attributes = [
        \<lparr>attr_name = ''Total Load'', attr_value = 285, minThreshold = 0,
         maxThreshold = 400, category = ''Capacity''\<rparr>,
        \<lparr>attr_name = ''Phase A Current'', attr_value = 198, minThreshold = 0,
         maxThreshold = 300, category = ''Power''\<rparr>,
        \<lparr>attr_name = ''Phase B Current'', attr_value = 205, minThreshold = 0,
         maxThreshold = 300, category = ''Power''\<rparr>,
        \<lparr>attr_name = ''Phase C Current'', attr_value = 192, minThreshold = 0,
         maxThreshold = 300, category = ''Power''\<rparr>,
        \<lparr>attr_name = ''Power Factor'', attr_value = 0.95, minThreshold = 0.85,
         maxThreshold = 1, category = ''Efficiency''\<rparr>,
        \<lparr>attr_name = ''Breaker Trips'', attr_value = 0, minThreshold = 0,
         maxThreshold = 1, category = ''Health''\<rparr>]\<rparr>"

definition asset_sea_013 :: asset where
  "asset_sea_013 =
     \<lparr>asset_id = ''sea-013'', asset_name = ''CRAC-SEA-001'', asset_type = ''CRAC Unit'',
      asset_status = ''Warning'',
      attributes = [
        \<lparr>attr_name = ''Supply Air Temp'', attr_value = 19, minThreshold = 15,
         maxThreshold = 22, category = ''Environmental''\<rparr>,
        \<lparr>attr_name = ''Return Air Temp'', attr_value = 32, minThreshold = 20,
         maxThreshold = 30, category = ''Environmental''\<rparr>,
        \<lparr>attr_name = ''Humidity'', attr_value = 58, minThreshold = 40,
         maxThreshold = 55, category = ''Environmental''\<rparr>,
        \<lparr>attr_name = ''Compressor Status'', attr_value = 1, minThreshold = 2,
         maxThreshold = 2, category = ''Health''\<rparr>,
        \<lparr>attr_name = ''Refrigerant Pressure'', attr_value = 285, minThreshold = 250,
         maxThreshold = 350, category = ''Health''\<rparr>,
        \<lparr>attr_name = ''Airflow'', attr_value = 8500, minThreshold = 8000,
         maxThreshold = 12000, category = ''Performance''\<rparr>]\<rparr>"

definition asset_sea_014 :: asset where
  "asset_sea_014 =
     \<lparr>asset_id = ''sea-014'', asset_name = ''GEN-SEA-001'', asset_type = ''Diesel Generator'',
      asset_status = ''Active'',
      attributes = [
        \<lparr>attr_name = ''Fuel Level'', attr_value = 85, minThreshold = 25,
         maxThreshold = 100, category = ''Capacity''\<rparr>,
        \<lparr>attr_name = ''Battery Voltage'', attr_value = 26.4, minThreshold = 24,
         maxThreshold = 28, category = ''Health''\<rparr>,
        \<lparr>attr_name = ''Coolant Temp'', attr_value = 45, minThreshold = 30,
         maxThreshold = 95, category = ''Environmental''\<rparr>,
        \<lparr>attr_name = ''Oil Pressure'', attr_value = 62, minThreshold = 40,
         maxThreshold = 80, category = ''Health''\<rparr>,
        \<lparr>attr_name = ''Run Hours'', attr_value = 142, minThreshold = 0,
         maxThreshold = 500, category = ''Maintenance''\<rparr>,
        \<lparr>attr_name = ''Last Test'', attr_value = 3, minThreshold = 0,
         maxThreshold = 30, category = ''Maintenance''\<rparr>]\<rparr>"

text \<open>A floor literal: its number, its label and its assets.\<close>

record floor_data =
  floor_no :: string
  floorLabel :: string
  floor_assets :: "asset list"

definition HAVEN_FLOORS :: "floor_data list" where
  "HAVEN_FLOORS =
     [\<lparr>floor_no = ''1'', floorLabel = ''Floor 1 - Network Core'',
       floor_assets = [asset_haven_olt_001, asset_haven_olt_002, asset_sea_002, asset_sea_003,
                       asset_sea_004]\<rparr>,
      \<lparr>floor_no = ''2'', floorLabel = ''Floor 2 - Transport & DWDM'',
       floor_assets = [asset_sea_005, asset_sea_006, asset_sea_007]\<rparr>,
      \<lparr>floor_no = ''3'', floorLabel = ''Floor 3 - Compute & Storage'',
       floor_assets = [asset_sea_008, asset_sea_009, asset_sea_010]\<rparr>,
      \<lparr>floor_no = ''4'', floorLabel = ''Floor 4 - Power & Cooling'',
       floor_assets = [asset_haven_ups_001, asset_sea_012, asset_sea_013, asset_sea_014]\<rparr>]"

subsection \<open>Loading\<close>

definition getStatusClass :: "string \<Rightarrow> string" where
  "getStatusClass status =
     (if status = ''Active'' then ''slds-badge slds-theme_success''
      else if status = ''Warning'' then ''slds-badge slds-theme_warning''
      else if status = ''Inactive'' then ''slds-badge slds-theme_error''
      else ''slds-badge'')"

text \<open>
  An asset after the \<open>forEach\<close> pass at the end of \<open>loadHavenDataCenterAssets\<close>: the
  literal's fields, \<open>statusClass\<close>, the processed attributes, \<open>warningAttributes\<close> and
  \<open>hasWarnings\<close>. Every asset literal has an \<open>attributes\<close> array, so the guard
  \<open>if (asset.attributes)\<close> is always taken.
\<close>

record loaded_asset =
  la_id :: string
  la_name :: string
  la_type :: string
  la_status :: string
  la_statusClass :: string
  la_attributes :: "processed_attr list"
  warningAttributes :: "processed_attr list"
  hasWarnings :: bool

definition load_asset :: "asset \<Rightarrow> loaded_asset" where
  "load_asset a =
     (let attrs = map processAttribute (attributes a);
          warn = filter (\<lambda>p. pa_status p = ''warning'' \<or> pa_status p = ''critical'') attrs
      in \<lparr>la_id = asset_id a, la_name = asset_name a, la_type = asset_type a,
          la_status = asset_status a, la_statusClass = getStatusClass (asset_status a),
          la_attributes = attrs, warningAttributes = warn, hasWarnings = (length warn > 0)\<rparr>)"

record loaded_floor =
  lf_floor :: string
  lf_floorLabel :: string
  lf_assets :: "loaded_asset list"

definition loadHavenDataCenterAssets :: "loaded_floor list" where
  "loadHavenDataCenterAssets =
     map (\<lambda>f. \<lparr>lf_floor = floor_no f, lf_floorLabel = floorLabel f,
                lf_assets = map load_asset (floor_assets f)\<rparr>) HAVEN_FLOORS"

subsection \<open>Component state and the handlers of the asset detail panel\<close>

text \<open>
  \<open>bam_recordId\<close> is the \<open>@api recordId\<close> (the work order the component was opened from;
  \<open>None\<close> when the property is not set or empty, which is what \<open>!this.recordId\<close> tests).
\<close>

record bam_state =
  bam_recordId :: "string option"
  assetsByFloor :: "loaded_floor list"
  selectedAsset :: "loaded_asset option"
  showAssetDetail :: bool
  isCreatingWorkPlan :: bool
  bam_workPlanCreated :: bool
  bam_out :: "effect list"

text \<open>The field initialisers followed by \<open>connectedCallback\<close>.\<close>

definition bam_init :: "string option \<Rightarrow> bam_state" where
  "bam_init rid =
     \<lparr>bam_recordId = rid, assetsByFloor = loadHavenDataCenterAssets, selectedAsset = None,
      showAssetDetail = False, isCreatingWorkPlan = False, bam_workPlanCreated = False,
      bam_out = []\<rparr>"

text \<open>
  \<open>handleAssetClick\<close>: the first floor, in order, that has an asset of that id gives the
  selection; nothing changes when no floor has one.
\<close>

fun find_asset :: "loaded_floor list \<Rightarrow> string \<Rightarrow> loaded_asset option" where
  "find_asset [] assetId = None"
| "find_asset (f # fs) assetId =
     (case find (\<lambda>a. la_id a = assetId) (lf_assets f) of
        Some a \<Rightarrow> Some a
      | None \<Rightarrow> find_asset fs assetId)"

definition handleAssetClick :: "string \<Rightarrow> bam_state \<Rightarrow> bam_state" where
  "handleAssetClick assetId st =
     (case find_asset (assetsByFloor st) assetId of
        Some a \<Rightarrow> st\<lparr>selectedAsset := Some a, showAssetDetail := True\<rparr>
      | None \<Rightarrow> st)"

definition handleCloseDetail :: "bam_state \<Rightarrow> bam_state" where
  "handleCloseDetail st =
     st\<lparr>showAssetDetail := False, selectedAsset := None, bam_workPlanCreated := False\<rparr>"

text \<open>
  \<open>handleAddInspectionWorkPlan\<close>, with the way the call of the Apex method
  \<open>createInspectionWorkPlan\<close> settles as a parameter (the method returns the id of the work
  plan, which the handler does not use). The \<open>finally\<close> block runs on both paths.
\<close>

definition handleAddInspectionWorkPlan :: "string outcome \<Rightarrow> bam_state \<Rightarrow> bam_state" where
  "handleAddInspectionWorkPlan created st =
     (case selectedAsset st of
        None \<Rightarrow> st
      | Some a \<Rightarrow>
          if \<not> hasWarnings a then st
          else if bam_recordId st = None \<or> bam_recordId st = Some [] then
            st\<lparr>bam_workPlanCreated := True,
               bam_out := bam_out st @
                 [Toast ''No Work Order''
                    ''This component must be opened from a Work Order to create a Work Plan. (Demo: simulating success)''
                    ''warning'']\<rparr>
          else
            (case created of
               Resolved workPlanId \<Rightarrow>
                 st\<lparr>isCreatingWorkPlan := False, bam_workPlanCreated := True,
                    bam_out := bam_out st @
                      [RemoteCall ''createInspectionWorkPlan'',
                       Toast ''Inspection Work Plan Created''
                         (''Work plan with '' @ show_nat (length (warningAttributes a) + 4)
                            @ '' inspection steps created for '' @ la_name a)
                         ''success'']\<rparr>
             | Rejected e \<Rightarrow>
                 st\<lparr>isCreatingWorkPlan := False,
                    bam_out := bam_out st @
                      [RemoteCall ''createInspectionWorkPlan'',
                       ConsoleError ''Error creating work plan:'',
                       Toast ''Error'' (message_or e ''Failed to create inspection work plan'')
                         ''error'']\<rparr>))"

section \<open>Service appointment status update\<close>

subsection \<open>The status configuration\<close>

record status_config =
  cfg_next :: "string list"
  cfg_color :: string
  cfg_icon :: string

text \<open>The own properties of the object literal \<open>STATUS_CONFIG\<close>, in source order.\<close>

definition STATUS_CONFIG :: "(string \<times> status_config) list" where
  "STATUS_CONFIG =
     [(''None'', \<lparr>cfg_next = [''Scheduled''], cfg_color = ''#706e6b'',
         cfg_icon = ''utility:clock''\<rparr>),
      (''Scheduled'', \<lparr>cfg_next = [''Dispatched'', ''Travel''], cfg_color = ''#0070d2'',
         cfg_icon = ''utility:event''\<rparr>),
      (''Dispatched'', \<lparr>cfg_next = [''Travel'', ''In Progress''], cfg_color = ''#ff9a3c'',
         cfg_icon = ''utility:routing_offline''\<rparr>),
      (''Travel'', \<lparr>cfg_next = [''In Progress''], cfg_color = ''#1589ee'',
         cfg_icon = ''utility:travel_and_places''\<rparr>),
      (''In Progress'', \<lparr>cfg_next = [''Completed'', ''Cannot Complete''], cfg_color = ''#04844b'',
         cfg_icon = ''utility:activity''\<rparr>),
      (''Completed'', \<lparr>cfg_next = [], cfg_color = ''#2e844a'', cfg_icon = ''utility:check''\<rparr>),
      (''Cannot Complete'', \<lparr>cfg_next = [], cfg_color = ''#c23934'',
         cfg_icon = ''utility:close''\<rparr>),
      (''Canceled'', \<lparr>cfg_next = [], cfg_color = ''#706e6b'', cfg_icon = ''utility:ban''\<rparr>)]"

text \<open>
  \<open>STATUS_CONFIG\<close> is a plain object, so the property access \<open>STATUS_CONFIG[key]\<close> also
  finds what the object inherits from \<open>Object.prototype\<close>. These are the property names of
  \<open>Object.prototype\<close> in ECMAScript (with its Annex B); the value found under each is a
  function, or for \<open>__proto__\<close> the prototype object itself: a truthy value that has no
  \<open>next\<close>, \<open>color\<close> or \<open>icon\<close> property.
\<close>

definition OBJECT_PROTOTYPE_KEYS :: "string list" where
  "OBJECT_PROTOTYPE_KEYS =
     [''constructor'', ''hasOwnProperty'', ''isPrototypeOf'', ''propertyIsEnumerable'',
      ''toLocaleString'', ''toString'', ''valueOf'', ''__proto__'', ''__defineGetter__'',
      ''__defineSetter__'', ''__lookupGetter__'', ''__lookupSetter__'']"

text \<open>
  The result of a property access on \<open>STATUS_CONFIG\<close>: a configuration of its own, an
  inherited member, or \<open>undefined\<close>.
\<close>

datatype config_prop = Own status_config | Inherited | Undefined

definition STATUS_CONFIG_get :: "string \<Rightarrow> config_prop" where
  "STATUS_CONFIG_get key =
     (case map_of STATUS_CONFIG key of
        Some c \<Rightarrow> Own c
      | None \<Rightarrow> (if key \<in> set OBJECT_PROTOTYPE_KEYS then Inherited else Undefined))"

subsection \<open>Component state and getters\<close>

text \<open>
  Two statuses are kept apart. \<open>sa_status\<close> is the \<open>Status\<close> field of the appointment
  record as it is stored, which \<open>updateRecord\<close> writes. \<open>wire_status\<close> is
  \<open>serviceAppointment?.Status?.value\<close> of the result the GraphQL wire last provisioned
  to the property \<open>serviceAppointmentResult\<close>, which is all the getters read: \<open>None\<close>
  while nothing is loaded, when the result has no edge or when the value is null. No
  handler writes \<open>wire_status\<close> and none asks the wire to refresh. The journal \<open>sa_out\<close>
  records the remote calls started and the events dispatched.
\<close>

record sa_state =
  sa_recordId :: string
  sa_status :: "string option"
  wire_status :: "string option"
  sa_isProcessing :: bool
  showBlockModal :: bool
  blockReason :: string
  blockNotes :: string
  dependentAppointments :: "string list"
  showDependencyWarning :: bool
  sa_out :: "effect list"

text \<open>\<open>value || 'None'\<close> on an optional status: the empty string is falsy.\<close>

definition status_text :: "string option \<Rightarrow> string" where
  "status_text v =
     (case v of
        None \<Rightarrow> ''None''
      | Some s \<Rightarrow> (if s = [] then ''None'' else s))"

text \<open>\<open>this.serviceAppointment?.Status?.value || 'None'\<close>.\<close>

definition currentStatus :: "sa_state \<Rightarrow> string" where
  "currentStatus st = status_text (wire_status st)"

text \<open>
  \<open>STATUS_CONFIG[this.currentStatus] || STATUS_CONFIG['None']\<close>: the right operand is taken
  only when the left one is \<open>undefined\<close>; an own configuration and an inherited member are
  both truthy.
\<close>

definition statusConfig_of :: "string \<Rightarrow> config_prop" where
  "statusConfig_of status =
     (case STATUS_CONFIG_get status of
        Undefined \<Rightarrow> STATUS_CONFIG_get ''None''
      | found \<Rightarrow> found)"

definition statusConfig :: "sa_state \<Rightarrow> config_prop" where
  "statusConfig st = statusConfig_of (currentStatus st)"

text \<open>Reading \<open>.next.map\<close> or \<open>.next.length\<close> of a value without \<open>next\<close> throws.\<close>

datatype js_exception = TypeError

record status_option =
  opt_label :: string
  opt_value :: string
  opt_variant :: string
  opt_icon :: string

text \<open>\<open>STATUS_CONFIG[status]?.icon || 'utility:forward'\<close>.\<close>

definition option_icon :: "string \<Rightarrow> string" where
  "option_icon status =
     (case STATUS_CONFIG_get status of
        Own c \<Rightarrow> (if cfg_icon c = [] then ''utility:forward'' else cfg_icon c)
      | Inherited \<Rightarrow> ''utility:forward''
      | Undefined \<Rightarrow> ''utility:forward'')"

definition next_options_of :: "string \<Rightarrow> js_exception + status_option list" where
  "next_options_of status =
     (case statusConfig_of status of
        Own config \<Rightarrow>
          Inr (map (\<lambda>s. \<lparr>opt_label = s, opt_value = s,
                           opt_variant = (if s = ''Completed'' then ''success'' else ''neutral''),
                           opt_icon = option_icon s\<rparr>)
                   (cfg_next config))
      | Inherited \<Rightarrow> Inl TypeError
      | Undefined \<Rightarrow> Inl TypeError)"

definition nextStatusOptions :: "sa_state \<Rightarrow> js_exception + status_option list" where
  "nextStatusOptions st = next_options_of (currentStatus st)"

definition canUpdateStatus :: "sa_state \<Rightarrow> js_exception + bool" where
  "canUpdateStatus st =
     (case statusConfig st of
        Own config \<Rightarrow> Inr (length (cfg_next config) > 0)
      | Inherited \<Rightarrow> Inl TypeError
      | Undefined \<Rightarrow> Inl TypeError)"

definition showBlockButton :: "sa_state \<Rightarrow> bool" where
  "showBlockButton st =
     (currentStatus st \<noteq> ''Cannot Complete'' \<and> currentStatus st \<noteq> ''Completed''
      \<and> currentStatus st \<noteq> ''Canceled'')"

subsection \<open>Handlers\<close>

text \<open>
  The wire adapter provisions \<open>serviceAppointmentResult\<close>: the data carry the status
  value of the first edge's node (\<open>None\<close> for a null value); without data, or with no
  edge, the getter \<open>serviceAppointment\<close> is null. The errors of the result are read by
  nothing.
\<close>

definition serviceAppointmentResult_provisioned ::
    "string option wire_result \<Rightarrow> sa_state \<Rightarrow> sa_state" where
  "serviceAppointmentResult_provisioned result st =
     st\<lparr>wire_status := (case wr_data result of None \<Rightarrow> None | Some v \<Rightarrow> v)\<rparr>"

text \<open>The wire provisions the record as it is stored.\<close>

definition wire_refreshed :: "sa_state \<Rightarrow> sa_state" where
  "wire_refreshed st =
     serviceAppointmentResult_provisioned \<lparr>wr_data = Some (sa_status st), wr_error = None\<rparr> st"

text \<open>
  \<open>updateAppointmentStatus\<close>, with the way \<open>updateRecord\<close> settles as a parameter. When
  the update resolves, the stored record's \<open>Status\<close> field holds the new status; what the
  component displays is left as the wire last provisioned it. \<open>isProcessing\<close> is set at
  the start and cleared in the \<open>finally\<close> block.
\<close>

definition updateAppointmentStatus :: "string \<Rightarrow> unit outcome \<Rightarrow> sa_state \<Rightarrow> sa_state" where
  "updateAppointmentStatus newStatus updated st =
     (case updated of
        Resolved u \<Rightarrow>
          st\<lparr>sa_status := Some newStatus, sa_isProcessing := False,
             sa_out := sa_out st @
               [RemoteCall ''updateRecord'',
                Toast ''Status Updated'' (''Appointment status changed to '' @ newStatus)
                  ''success'']\<rparr>
      | Rejected e \<Rightarrow>
          st\<lparr>sa_isProcessing := False,
             sa_out := sa_out st @
               [RemoteCall ''updateRecord'',
                Toast ''Error'' (message_or e ''Failed to update status'') ''error'']\<rparr>)"


text \<open>
  \<open>loadDependentAppointments\<close>, with the way \<open>getAppointmentChain\<close> settles as a parameter
  (\<open>None\<close> for a null chain).
\<close>

definition loadDependentAppointments :: "string list option outcome \<Rightarrow> sa_state \<Rightarrow> sa_state" where
  "loadDependentAppointments chain st =
     (case chain of
        Resolved chainData \<Rightarrow>
          (case chainData of
             None \<Rightarrow> st\<lparr>sa_out := sa_out st @ [RemoteCall ''getAppointmentChain'']\<rparr>
           | Some appts \<Rightarrow>
               if length appts > 0 then
                 st\<lparr>dependentAppointments := appts, showDependencyWarning := True,
                    sa_out := sa_out st @ [RemoteCall ''getAppointmentChain'']\<rparr>
               else st\<lparr>sa_out := sa_out st @ [RemoteCall ''getAppointmentChain'']\<rparr>)
      | Rejected e \<Rightarrow>
          st\<lparr>sa_out := sa_out st @
               [RemoteCall ''getAppointmentChain'', ConsoleError ''Error loading dependencies:'']\<rparr>)"

definition handleBlockClick :: "string list option outcome \<Rightarrow> sa_state \<Rightarrow> sa_state" where
  "handleBlockClick chain st = loadDependentAppointments chain (st\<lparr>showBlockModal := True\<rparr>)"

definition handleCloseBlockModal :: "sa_state \<Rightarrow> sa_state" where
  "handleCloseBlockModal st =
     st\<lparr>showBlockModal := False, blockReason := [], blockNotes := [],
        dependentAppointments := [], showDependencyWarning := False\<rparr>"

definition handleBlockReasonChange :: "string \<Rightarrow> sa_state \<Rightarrow> sa_state" where
  "handleBlockReasonChange v st = st\<lparr>blockReason := v\<rparr>"


text \<open>
  What \<open>triggerRSOForBlockedAppointment\<close> resolves to: an object with \<open>rsoCount\<close>, or null
  (\<open>None\<close>), in which case reading \<open>rsoResult.rsoCount\<close> throws inside the \<open>try\<close> block and
  the \<open>catch\<close> block handles a \<open>TypeError\<close>, an error without a body.
\<close>

record rso_result =
  rsoCount :: nat

text \<open>
  \<open>handleConfirmBlock\<close>, with the ways \<open>updateRecord\<close> and the RSO trigger settle as
  parameters. The trigger is called only after the update has resolved.
\<close>

definition handleConfirmBlock ::
    "unit outcome \<Rightarrow> rso_result option outcome \<Rightarrow> sa_state \<Rightarrow> sa_state" where
  "handleConfirmBlock updated rso st =
     (if blockReason st = [] then
        st\<lparr>sa_out := sa_out st @
             [Toast ''Error'' ''Please select a block reason'' ''error'']\<rparr>
      else
        (case updated of
           Rejected e \<Rightarrow>
             st\<lparr>sa_isProcessing := False,
                sa_out := sa_out st @
                  [RemoteCall ''updateRecord'',
                   Toast ''Error'' (message_or e ''Failed to block appointment'') ''error'']\<rparr>
         | Resolved u \<Rightarrow>
             (case rso of
                Rejected e \<Rightarrow>
                  st\<lparr>sa_status := Some ''Cannot Complete'', sa_isProcessing := False,
                     sa_out := sa_out st @
                       [RemoteCall ''updateRecord'',
                        RemoteCall ''triggerRSOForBlockedAppointment'',
                        Toast ''Error'' (message_or e ''Failed to block appointment'')
                          ''error'']\<rparr>
              | Resolved None \<Rightarrow>
                  st\<lparr>sa_status := Some ''Cannot Complete'', sa_isProcessing := False,
                     sa_out := sa_out st @
                       [RemoteCall ''updateRecord'',
                        RemoteCall ''triggerRSOForBlockedAppointment'',
                        Toast ''Error'' (message_or (JsError None) ''Failed to block appointment'')
                          ''error'']\<rparr>
              | Resolved (Some rsoResult) \<Rightarrow>
                  (handleCloseBlockModal
                     (st\<lparr>sa_status := Some ''Cannot Complete'',
                         sa_out := sa_out st @
                           [RemoteCall ''updateRecord'',
                            RemoteCall ''triggerRSOForBlockedAppointment'',
                            Toast ''Appointment Blocked''
                              (''RSO triggered for '' @ show_nat (rsoCount rsoResult)
                                 @ '' resource(s)'')
                              ''success'']\<rparr>))
                  \<lparr>sa_isProcessing := False\<rparr>)))"


subsection \<open>Sequences of user operations\<close>








text \<open>
  The spec's transition table, row by row as the spec words it (terminal statuses have
  the empty row).
\<close>

definition spec_table :: "(string \<times> string list) list" where
  "spec_table =
     [(''None'', [''Scheduled'']),
      (''Scheduled'', [''Dispatched'', ''Travel'']),
      (''Dispatched'', [''Travel'', ''In Progress'']),
      (''Travel'', [''In Progress'']),
      (''In Progress'', [''Completed'', ''Cannot Complete'']),
      (''Completed'', []),
      (''Cannot Complete'', []),
      (''Canceled'', [])]"

section \<open>CPE provisioning\<close>

subsection \<open>State\<close>

text \<open>The simulated ADAPT status codes (the constant \<open>ADAPT_STATUS\<close>).\<close>

definition DISCONNECTED :: string where "DISCONNECTED = ''Disconnected''"
definition CONNECTING :: string where "CONNECTING = ''Connecting...''"
definition CONNECTED :: string where "CONNECTED = ''Connected''"
definition VALIDATING :: string where "VALIDATING = ''Validating...''"
definition VALIDATED :: string where "VALIDATED = ''Validated''"
definition PROVISIONING :: string where "PROVISIONING = ''Provisioning...''"
definition PROVISIONED :: string where "PROVISIONED = ''Provisioned''"
definition ACTIVATING :: string where "ACTIVATING = ''Activating...''"
definition ACTIVATED :: string where "ACTIVATED = ''Activated''"

text \<open>
  An entry of \<open>provisioningLog\<close>: message, type and icon. The \<open>id\<close> and \<open>timestamp\<close>
  fields are readings of the clock and are left out.
\<close>

record log_entry =
  log_message :: string
  log_type :: string
  log_iconName :: string

text \<open>
  What a handler of the wizard does, in program order: an awaited \<open>delay(ms)\<close>, a write
  of \<open>adaptStatus\<close>, of \<open>currentStep\<close> or of \<open>isProcessing\<close>, a call of \<open>addLog\<close>
  (message and type), and a dispatched event.
\<close>

datatype cpe_action =
    Delay nat
  | SetAdaptStatus string
  | SetCurrentStep nat
  | SetIsProcessing bool
  | AddLog string string
  | Dispatch effect

text \<open>
  The tracked fields the handlers read or write, the data of the two GraphQL wires that
  the getters read (\<open>None\<close> for a missing or null value), and the journal of actions.
\<close>

record cpe_state =
  currentStep :: nat
  adaptStatus :: string
  isProcessing :: bool
  provisioningComplete :: bool
  manualSerialNumber :: string
  manualSerialEntered :: bool
  isChangingCpe :: bool
  signalStrength :: "string option"
  opticalPower :: "string option"
  connectionSpeed :: "string option"
  provisioningLog :: "log_entry list"
  wire_accountName :: "string option"
  wire_workOrderNumber :: "string option"
  wire_assetSerialNumber :: "string option"
  wire_assetId :: "string option"
  journal :: "cpe_action list"

text \<open>The field initialisers, for given wire data.\<close>

definition cpe_init ::
    "string option \<Rightarrow> string option \<Rightarrow> string option \<Rightarrow> string option \<Rightarrow> cpe_state" where
  "cpe_init account woNumber serial assetId =
     \<lparr>currentStep = 1, adaptStatus = DISCONNECTED, isProcessing = False,
      provisioningComplete = False, manualSerialNumber = [], manualSerialEntered = False,
      isChangingCpe = False, signalStrength = None, opticalPower = None,
      connectionSpeed = None, provisioningLog = [], wire_accountName = account,
      wire_workOrderNumber = woNumber, wire_assetSerialNumber = serial,
      wire_assetId = assetId, journal = []\<rparr>"

subsection \<open>Getters\<close>

text \<open>\<open>value || fallback\<close> on an optional string.\<close>

definition or_else :: "string option \<Rightarrow> string \<Rightarrow> string" where
  "or_else v fallback =
     (case v of None \<Rightarrow> fallback | Some s \<Rightarrow> (if s = [] then fallback else s))"

definition displayAccountName :: "cpe_state \<Rightarrow> string" where
  "displayAccountName st = or_else (wire_accountName st) ''N/A''"

definition displayWorkOrderNumber :: "cpe_state \<Rightarrow> string" where
  "displayWorkOrderNumber st = or_else (wire_workOrderNumber st) ''Loading...''"

definition displaySerialNumber :: "cpe_state \<Rightarrow> string" where
  "displaySerialNumber st =
     (if manualSerialEntered st then manualSerialNumber st
      else or_else (wire_assetSerialNumber st) ''N/A'')"

text \<open>
  \<open>this.isProcessing || (!this.workOrder?.Asset?.Id && !this.manualSerialEntered)\<close>: a
  missing id and the empty id are both falsy.
\<close>

definition disableStartProvisioning :: "cpe_state \<Rightarrow> bool" where
  "disableStartProvisioning st =
     (isProcessing st
      \<or> ((wire_assetId st = None \<or> wire_assetId st = Some []) \<and> \<not> manualSerialEntered st))"

definition isStep1 :: "cpe_state \<Rightarrow> bool" where "isStep1 st = (currentStep st = 1)"
definition isStep2 :: "cpe_state \<Rightarrow> bool" where "isStep2 st = (currentStep st = 2)"
definition isStep3 :: "cpe_state \<Rightarrow> bool" where "isStep3 st = (currentStep st = 3)"
definition isStep4 :: "cpe_state \<Rightarrow> bool" where "isStep4 st = (currentStep st = 4)"

subsection \<open>Primitive actions\<close>

definition set_adaptStatus :: "string \<Rightarrow> cpe_state \<Rightarrow> cpe_state" where
  "set_adaptStatus s st = st\<lparr>adaptStatus := s, journal := journal st @ [SetAdaptStatus s]\<rparr>"

definition set_currentStep :: "nat \<Rightarrow> cpe_state \<Rightarrow> cpe_state" where
  "set_currentStep n st = st\<lparr>currentStep := n, journal := journal st @ [SetCurrentStep n]\<rparr>"

definition set_isProcessing :: "bool \<Rightarrow> cpe_state \<Rightarrow> cpe_state" where
  "set_isProcessing b st = st\<lparr>isProcessing := b, journal := journal st @ [SetIsProcessing b]\<rparr>"

definition addLog :: "string \<Rightarrow> string \<Rightarrow> cpe_state \<Rightarrow> cpe_state" where
  "addLog message type st =
     st\<lparr>provisioningLog := provisioningLog st @
          [\<lparr>log_message = message, log_type = type,
            log_iconName = (if type = ''success'' then ''utility:success''
                            else if type = ''error'' then ''utility:error''
                            else ''utility:info'')\<rparr>],
        journal := journal st @ [AddLog message type]\<rparr>"

text \<open>\<open>await this.delay(ms)\<close>: the timer changes no field.\<close>

definition delay :: "nat \<Rightarrow> cpe_state \<Rightarrow> cpe_state" where
  "delay ms st = st\<lparr>journal := journal st @ [Delay ms]\<rparr>"

definition dispatchEvent :: "effect \<Rightarrow> cpe_state \<Rightarrow> cpe_state" where
  "dispatchEvent ev st = st\<lparr>journal := journal st @ [Dispatch ev]\<rparr>"

subsection \<open>The simulated ADAPT interaction\<close>

text \<open>
  Each async method, run from its first statement to its last: the statements in
  source order, every \<open>await\<close> in its place.
\<close>

definition connectToADAPT :: "cpe_state \<Rightarrow> cpe_state" where
  "connectToADAPT st0 =
     (let st = set_isProcessing True st0;
          st = set_adaptStatus CONNECTING st;
          customerContext = (if displayAccountName st \<noteq> ''N/A''
                             then '' for '' @ displayAccountName st else []);
          st = addLog (''Connecting to ADAPT'' @ customerContext @ ''...'') ''info'' st;
          st = delay 1500 st;
          st = set_adaptStatus CONNECTED st;
          st = addLog ''ADAPT connection established'' ''success'' st;
          st = (if displayWorkOrderNumber st \<noteq> ''Loading...''
                then addLog (''WO: '' @ displayWorkOrderNumber st) ''info'' st else st);
          st = set_currentStep 2 st
      in set_isProcessing False st)"

text \<open>
  \<open>validateSerial\<close>. The MAC address it logs is drawn by \<open>generateMacAddress\<close> from
  \<open>Math.random\<close>; the drawn string is a parameter.
\<close>

definition validateSerial :: "string \<Rightarrow> cpe_state \<Rightarrow> cpe_state" where
  "validateSerial mac st0 =
     (let st = set_isProcessing True st0;
          st = set_adaptStatus VALIDATING st;
          serial = (if manualSerialEntered st then manualSerialNumber st
                    else displaySerialNumber st);
          st = addLog (''Validating: '' @ serial) ''info'' st;
          st = delay 2000 st;
          st = set_adaptStatus VALIDATED st;
          st = addLog ''Serial validated'' ''success'' st;
          st = addLog (''MAC: '' @ mac) ''info'' st
      in set_isProcessing False st)"

definition provisionCPE :: "cpe_state \<Rightarrow> cpe_state" where
  "provisionCPE st0 =
     (let st = set_isProcessing True st0;
          st = set_adaptStatus PROVISIONING st;
          st = addLog ''Provisioning CPE...'' ''info'' st;
          st = delay 1000 st;
          st = addLog ''Creating service profile'' ''info'' st;
          st = delay 1500 st;
          st = addLog ''Configuring VLAN'' ''info'' st;
          st = delay 1000 st;
          st = addLog ''Setting QoS parameters'' ''info'' st;
          st = delay 1500 st;
          st = set_adaptStatus PROVISIONED st;
          st = addLog ''CPE provisioned'' ''success'' st;
          st = set_currentStep 3 st
      in set_isProcessing False st)"

text \<open>
  \<open>runSignalTest\<close>. The signal strength and the optical power are formatted from
  \<open>Math.random\<close>; the two formatted strings are parameters.
\<close>

definition runSignalTest :: "string \<Rightarrow> string \<Rightarrow> cpe_state \<Rightarrow> cpe_state" where
  "runSignalTest dBm mW st0 =
     (let st = set_isProcessing True st0;
          st = addLog ''Running signal test...'' ''info'' st;
          st = delay 2000 st;
          st = st\<lparr>signalStrength := Some dBm, opticalPower := Some mW,
                 connectionSpeed := Some ''1 Gbps''\<rparr>;
          st = addLog (''Signal: '' @ dBm) ''success'' st
      in set_isProcessing False st)"

definition activateService :: "cpe_state \<Rightarrow> cpe_state" where
  "activateService st0 =
     (let st = set_isProcessing True st0;
          st = set_adaptStatus ACTIVATING st;
          st = addLog ''Activating service...'' ''info'' st;
          st = delay 2000 st;
          st = addLog ''Enabling data path'' ''info'' st;
          st = delay 1500 st;
          st = addLog ''Verifying connectivity'' ''info'' st;
          st = delay 1000 st;
          st = set_adaptStatus ACTIVATED st;
          customerContext = (if displayAccountName st \<noteq> ''N/A''
                             then '' - '' @ displayAccountName st else []);
          st = addLog (''SERVICE ACTIVATED'' @ customerContext) ''success'' st;
          st = set_currentStep 4 st;
          st = st\<lparr>provisioningComplete := True\<rparr>;
          st = set_isProcessing False st;
          toastMessage = (if displayAccountName st \<noteq> ''N/A''
                          then ''CPE provisioned and service activated for '' @ displayAccountName st
                          else ''CPE provisioned and service activated'')
      in dispatchEvent (Toast ''Provisioning Complete'' toastMessage ''success'') st)"

subsection \<open>Button handlers\<close>

definition handleManualSerialChange :: "string \<Rightarrow> cpe_state \<Rightarrow> cpe_state" where
  "handleManualSerialChange v st = st\<lparr>manualSerialNumber := v\<rparr>"

text \<open>
  What \<open>String.prototype.trim\<close> strips: the white space and line terminator characters
  of ECMAScript. A string is a UTF-8 text here, so a character beyond ASCII is the two or
  three bytes of its encoding: U+0009 to U+000D, U+0020, U+00A0, U+1680, U+2000 to U+200A,
  U+2028, U+2029, U+202F, U+205F, U+3000 and U+FEFF.
\<close>

definition WHITE_SPACE :: "string list" where
  "WHITE_SPACE =
     [[CHR 0x09], [CHR 0x0A], [CHR 0x0B], [CHR 0x0C], [CHR 0x0D], [CHR 0x20],
      [CHR 0xC2, CHR 0xA0],
      [CHR 0xE1, CHR 0x9A, CHR 0x80],
      [CHR 0xE2, CHR 0x80, CHR 0x80], [CHR 0xE2, CHR 0x80, CHR 0x81],
      [CHR 0xE2, CHR 0x80, CHR 0x82], [CHR 0xE2, CHR 0x80, CHR 0x83],
      [CHR 0xE2, CHR 0x80, CHR 0x84], [CHR 0xE2, CHR 0x80, CHR 0x85],
      [CHR 0xE2, CHR 0x80, CHR 0x86], [CHR 0xE2, CHR 0x80, CHR 0x87],
      [CHR 0xE2, CHR 0x80, CHR 0x88], [CHR 0xE2, CHR 0x80, CHR 0x89],
      [CHR 0xE2, CHR 0x80, CHR 0x8A],
      [CHR 0xE2, CHR 0x80, CHR 0xA8], [CHR 0xE2, CHR 0x80, CHR 0xA9],
      [CHR 0xE2, CHR 0x80, CHR 0xAF],
      [CHR 0xE2, CHR 0x81, CHR 0x9F],
      [CHR 0xE3, CHR 0x80, CHR 0x80],
      [CHR 0xEF, CHR 0xBB, CHR 0xBF]]"

text \<open>A text that \<open>trim\<close> leaves empty: every character of it is stripped.\<close>

fun blank :: "string \<Rightarrow> bool" where
  "blank [] = True"
| "blank (c # cs) =
     (if [c] \<in> set WHITE_SPACE then blank cs
      else if c # take 1 cs \<in> set WHITE_SPACE then blank (drop 1 cs)
      else if c # take 2 cs \<in> set WHITE_SPACE then blank (drop 2 cs)
      else False)"

text \<open>
  \<open>handleUseManualSerial\<close>: it acts when the serial number is truthy and
  \<open>manualSerialNumber.trim() !== ''\<close>.
\<close>

definition handleUseManualSerial :: "cpe_state \<Rightarrow> cpe_state" where
  "handleUseManualSerial st =
     (if manualSerialNumber st \<noteq> [] \<and> \<not> blank (manualSerialNumber st) then
        addLog (''CPE set: '' @ manualSerialNumber st) ''info''
          (st\<lparr>manualSerialEntered := True, isChangingCpe := False\<rparr>)
      else st)"

definition handleChangeCpe :: "cpe_state \<Rightarrow> cpe_state" where
  "handleChangeCpe st = st\<lparr>isChangingCpe := True, manualSerialNumber := []\<rparr>"

text \<open>
  What \<open>handleScanBarcode\<close> meets: a scanner whose capture resolves with a value or rejects
  with a message, or no scanner, in which case a serial number is drawn from
  \<open>Math.random\<close> (the drawn string is carried).
\<close>

datatype scan = Captured string | CaptureFailed string | Simulated string

definition handleScanBarcode :: "scan \<Rightarrow> cpe_state \<Rightarrow> cpe_state" where
  "handleScanBarcode sc st =
     (case sc of
        Captured v \<Rightarrow>
          addLog (''Barcode scanned: '' @ v) ''success''
            (st\<lparr>manualSerialNumber := v, manualSerialEntered := True\<rparr>)
      | CaptureFailed m \<Rightarrow> addLog (''Scan error: '' @ m) ''error'' st
      | Simulated simulatedSerial \<Rightarrow>
          dispatchEvent
            (Toast ''Barcode Simulated''
               ''Scanner not available - using simulated serial for demo'' ''info'')
            (addLog (''Simulated scan: '' @ simulatedSerial) ''success''
               (st\<lparr>manualSerialNumber := simulatedSerial, manualSerialEntered := True\<rparr>)))"

definition handleStartProvisioning :: "cpe_state \<Rightarrow> cpe_state" where
  "handleStartProvisioning st = connectToADAPT st"

text \<open>
  \<open>handleStep2Actions\<close>: three awaits in a row, so each begins when the one before it
  has settled.
\<close>

definition handleStep2Actions :: "string \<Rightarrow> cpe_state \<Rightarrow> cpe_state" where
  "handleStep2Actions mac st0 =
     (let st = validateSerial mac st0;
          st = delay 500 st
      in provisionCPE st)"

definition handleRunSignalTest :: "string \<Rightarrow> string \<Rightarrow> cpe_state \<Rightarrow> cpe_state" where
  "handleRunSignalTest dBm mW st = runSignalTest dBm mW st"

definition handleActivate :: "cpe_state \<Rightarrow> cpe_state" where
  "handleActivate st = activateService st"

definition cpe_handleClose :: "cpe_state \<Rightarrow> cpe_state" where
  "cpe_handleClose st = dispatchEvent CloseActionScreen st"

subsection \<open>The two wires\<close>

text \<open>
  Both GraphQL wires are bound to properties (\<open>serviceAppointmentResult\<close> and
  \<open>workOrderResult\<close>); the getters read the data of the first edge, and nothing reads the
  errors. The data of the appointment wire carry the account name, those of the work
  order wire the node below; a result without data, or with no edge, leaves the getters
  with null.
\<close>

record work_order_node =
  node_workOrderNumber :: "string option"
  node_assetId :: "string option"
  node_assetSerialNumber :: "string option"

definition cpe_serviceAppointment_provisioned ::
    "string option wire_result \<Rightarrow> cpe_state \<Rightarrow> cpe_state" where
  "cpe_serviceAppointment_provisioned result st =
     st\<lparr>wire_accountName := (case wr_data result of None \<Rightarrow> None | Some v \<Rightarrow> v)\<rparr>"

definition cpe_workOrder_provisioned ::
    "work_order_node wire_result \<Rightarrow> cpe_state \<Rightarrow> cpe_state" where
  "cpe_workOrder_provisioned result st =
     (case wr_data result of
        None \<Rightarrow>
          st\<lparr>wire_workOrderNumber := None, wire_assetSerialNumber := None,
             wire_assetId := None\<rparr>
      | Some node \<Rightarrow>
          st\<lparr>wire_workOrderNumber := node_workOrderNumber node,
             wire_assetSerialNumber := node_assetSerialNumber node,
             wire_assetId := node_assetId node\<rparr>)"

subsection \<open>Handler invocations\<close>

text \<open>
  One invocation of a handler with what the platform supplies to it, or one provisioning
  of a wire. \<open>cpe_handle\<close> is the invocation run from its first statement to its last
  with nothing else in between.
\<close>

datatype cpe_event =
    ManualSerialChange string
  | UseManualSerial
  | ChangeCpe
  | ScanBarcode scan
  | StartProvisioning
  | Step2Actions string
  | RunSignalTest string string
  | Activate
  | ClosePanel
  | AppointmentProvisioned "string option wire_result"
  | WorkOrderProvisioned "work_order_node wire_result"

fun cpe_handle :: "cpe_event \<Rightarrow> cpe_state \<Rightarrow> cpe_state" where
  "cpe_handle (ManualSerialChange v) st = handleManualSerialChange v st"
| "cpe_handle UseManualSerial st = handleUseManualSerial st"
| "cpe_handle ChangeCpe st = handleChangeCpe st"
| "cpe_handle (ScanBarcode sc) st = handleScanBarcode sc st"
| "cpe_handle StartProvisioning st = handleStartProvisioning st"
| "cpe_handle (Step2Actions mac) st = handleStep2Actions mac st"
| "cpe_handle (RunSignalTest dBm mW) st = handleRunSignalTest dBm mW st"
| "cpe_handle Activate st = handleActivate st"
| "cpe_handle ClosePanel st = cpe_handleClose st"
| "cpe_handle (AppointmentProvisioned result) st = cpe_serviceAppointment_provisioned result st"
| "cpe_handle (WorkOrderProvisioned result) st = cpe_workOrder_provisioned result st"

text \<open>One step forward or none: what a change of \<open>currentStep\<close> may be.\<close>

definition step_forward :: "nat \<Rightarrow> nat \<Rightarrow> bool" where
  "step_forward a b = (b = a \<or> b = a + 1)"

subsection \<open>The async methods cut at their awaits\<close>

text \<open>
  An async method runs until \<open>await this.delay(ms)\<close> hands control back to the event
  loop, and goes on when the timer fires; the button handlers start the methods and do
  not wait for them. A script is a method cut at these points: \<open>Run\<close> holds the
  statements between two awaits, \<open>Sleep\<close> is the awaited delay.
\<close>

datatype instr = Run "cpe_state \<Rightarrow> cpe_state" | Sleep nat

definition connectToADAPT_begin :: "cpe_state \<Rightarrow> cpe_state" where
  "connectToADAPT_begin st0 =
     (let st = set_isProcessing True st0;
          st = set_adaptStatus CONNECTING st;
          customerContext = (if displayAccountName st \<noteq> ''N/A''
                             then '' for '' @ displayAccountName st else [])
      in addLog (''Connecting to ADAPT'' @ customerContext @ ''...'') ''info'' st)"

definition connectToADAPT_end :: "cpe_state \<Rightarrow> cpe_state" where
  "connectToADAPT_end st0 =
     (let st = set_adaptStatus CONNECTED st0;
          st = addLog ''ADAPT connection established'' ''success'' st;
          st = (if displayWorkOrderNumber st \<noteq> ''Loading...''
                then addLog (''WO: '' @ displayWorkOrderNumber st) ''info'' st else st);
          st = set_currentStep 2 st
      in set_isProcessing False st)"

definition connectToADAPT_script :: "instr list" where
  "connectToADAPT_script = [Run connectToADAPT_begin, Sleep 1500, Run connectToADAPT_end]"

definition validateSerial_begin :: "cpe_state \<Rightarrow> cpe_state" where
  "validateSerial_begin st0 =
     (let st = set_isProcessing True st0;
          st = set_adaptStatus VALIDATING st;
          serial = (if manualSerialEntered st then manualSerialNumber st
                    else displaySerialNumber st)
      in addLog (''Validating: '' @ serial) ''info'' st)"

definition validateSerial_end :: "string \<Rightarrow> cpe_state \<Rightarrow> cpe_state" where
  "validateSerial_end mac st0 =
     (let st = set_adaptStatus VALIDATED st0;
          st = addLog ''Serial validated'' ''success'' st;
          st = addLog (''MAC: '' @ mac) ''info'' st
      in set_isProcessing False st)"

definition validateSerial_script :: "string \<Rightarrow> instr list" where
  "validateSerial_script mac = [Run validateSerial_begin, Sleep 2000, Run (validateSerial_end mac)]"

definition provisionCPE_begin :: "cpe_state \<Rightarrow> cpe_state" where
  "provisionCPE_begin st0 =
     (let st = set_isProcessing True st0;
          st = set_adaptStatus PROVISIONING st
      in addLog ''Provisioning CPE...'' ''info'' st)"

definition provisionCPE_end :: "cpe_state \<Rightarrow> cpe_state" where
  "provisionCPE_end st0 =
     (let st = set_adaptStatus PROVISIONED st0;
          st = addLog ''CPE provisioned'' ''success'' st;
          st = set_currentStep 3 st
      in set_isProcessing False st)"

definition provisionCPE_script :: "instr list" where
  "provisionCPE_script =
     [Run provisionCPE_begin, Sleep 1000,
      Run (addLog ''Creating service profile'' ''info''), Sleep 1500,
      Run (addLog ''Configuring VLAN'' ''info''), Sleep 1000,
      Run (addLog ''Setting QoS parameters'' ''info''), Sleep 1500,
      Run provisionCPE_end]"

definition runSignalTest_begin :: "cpe_state \<Rightarrow> cpe_state" where
  "runSignalTest_begin st0 =
     (let st = set_isProcessing True st0
      in addLog ''Running signal test...'' ''info'' st)"

definition runSignalTest_end :: "string \<Rightarrow> string \<Rightarrow> cpe_state \<Rightarrow> cpe_state" where
  "runSignalTest_end dBm mW st0 =
     (let st = st0\<lparr>signalStrength := Some dBm, opticalPower := Some mW,
                  connectionSpeed := Some ''1 Gbps''\<rparr>;
          st = addLog (''Signal: '' @ dBm) ''success'' st
      in set_isProcessing False st)"

definition runSignalTest_script :: "string \<Rightarrow> string \<Rightarrow> instr list" where
  "runSignalTest_script dBm mW =
     [Run runSignalTest_begin, Sleep 2000, Run (runSignalTest_end dBm mW)]"

definition activateService_begin :: "cpe_state \<Rightarrow> cpe_state" where
  "activateService_begin st0 =
     (let st = set_isProcessing True st0;
          st = set_adaptStatus ACTIVATING st
      in addLog ''Activating service...'' ''info'' st)"

definition activateService_end :: "cpe_state \<Rightarrow> cpe_state" where
  "activateService_end st0 =
     (let st = set_adaptStatus ACTIVATED st0;
          customerContext = (if displayAccountName st \<noteq> ''N/A''
                             then '' - '' @ displayAccountName st else []);
          st = addLog (''SERVICE ACTIVATED'' @ customerContext) ''success'' st;
          st = set_currentStep 4 st;
          st = st\<lparr>provisioningComplete := True\<rparr>;
          st = set_isProcessing False st;
          toastMessage = (if displayAccountName st \<noteq> ''N/A''
                          then ''CPE provisioned and service activated for '' @ displayAccountName st
                          else ''CPE provisioned and service activated'')
      in dispatchEvent (Toast ''Provisioning Complete'' toastMessage ''success'') st)"

definition activateService_script :: "instr list" where
  "activateService_script =
     [Run activateService_begin, Sleep 2000,
      Run (addLog ''Enabling data path'' ''info''), Sleep 1500,
      Run (addLog ''Verifying connectivity'' ''info''), Sleep 1000,
      Run activateService_end]"

text \<open>
  \<open>handleStep2Actions\<close>: validation, the awaited delay of 500 ms, provisioning. The
  resolved capture of the barcode scanner and the other handlers have no awaited delay.
\<close>

definition handleStep2Actions_script :: "string \<Rightarrow> instr list" where
  "handleStep2Actions_script mac = validateSerial_script mac @ [Sleep 500] @ provisionCPE_script"

fun script_of :: "cpe_event \<Rightarrow> instr list" where
  "script_of StartProvisioning = connectToADAPT_script"
| "script_of (Step2Actions mac) = handleStep2Actions_script mac"
| "script_of (RunSignalTest dBm mW) = runSignalTest_script dBm mW"
| "script_of Activate = activateService_script"
| "script_of (ManualSerialChange v) = [Run (handleManualSerialChange v)]"
| "script_of UseManualSerial = [Run handleUseManualSerial]"
| "script_of ChangeCpe = [Run handleChangeCpe]"
| "script_of (ScanBarcode sc) = [Run (handleScanBarcode sc)]"
| "script_of ClosePanel = [Run cpe_handleClose]"
| "script_of (AppointmentProvisioned result) = [Run (cpe_serviceAppointment_provisioned result)]"
| "script_of (WorkOrderProvisioned result) = [Run (cpe_workOrder_provisioned result)]"

text \<open>A script run to its end with nothing else in between.\<close>

fun run_script :: "instr list \<Rightarrow> cpe_state \<Rightarrow> cpe_state" where
  "run_script [] st = st"
| "run_script (Run f # rest) st = run_script rest (f st)"
| "run_script (Sleep ms # rest) st = run_script rest (delay ms st)"

subsection \<open>The event loop\<close>

text \<open>
  The time in milliseconds, the component, and the pending timers: each with the time it
  is due and the rest of the script it continues, in the order in which they fire (by due
  time, and for equal due times in the order in which they were set).
\<close>

record loop =
  clock :: nat
  component :: cpe_state
  timers :: "(nat \<times> instr list) list"

definition loop_init :: "cpe_state \<Rightarrow> loop" where
  "loop_init st = \<lparr>clock = 0, component = st, timers = []\<rparr>"

fun insert_timer :: "nat \<times> instr list \<Rightarrow> (nat \<times> instr list) list \<Rightarrow> (nat \<times> instr list) list" where
  "insert_timer t [] = [t]"
| "insert_timer t (u # us) = (if fst u \<le> fst t then u # insert_timer t us else t # u # us)"

text \<open>
  A script runs until its next \<open>Sleep\<close>, which sets a timer for the rest, or to its
  end.
\<close>

fun resume :: "instr list \<Rightarrow> loop \<Rightarrow> loop" where
  "resume [] l = l"
| "resume (Run f # rest) l = resume rest (l\<lparr>component := f (component l)\<rparr>)"
| "resume (Sleep ms # rest) l =
     l\<lparr>component := delay ms (component l),
       timers := insert_timer (clock l + ms, rest) (timers l)\<rparr>"

text \<open>
  Modelled from the spec: the HTML template of the component, which decides when a
  button can be clicked, is not among the sources. The spec has four fixed steps visited
  in order, each completing before the next begins. The getters and flags the component
  keeps for its template give the strictest gating it can apply: the button of an action
  is on the screen of its step (\<open>isStep1\<close> to \<open>isStep3\<close>) and is disabled while
  \<open>isProcessing\<close> is set (for the start button by the getter
  \<open>disableStartProvisioning\<close>). A template that gates less admits every click that this
  gating admits.
\<close>

definition button_enabled :: "cpe_event \<Rightarrow> cpe_state \<Rightarrow> bool" where
  "button_enabled e st =
     (case e of
        StartProvisioning \<Rightarrow> isStep1 st \<and> \<not> disableStartProvisioning st
      | Step2Actions mac \<Rightarrow> isStep2 st \<and> \<not> isProcessing st
      | RunSignalTest dBm mW \<Rightarrow> isStep3 st \<and> \<not> isProcessing st
      | Activate \<Rightarrow> isStep3 st \<and> \<not> isProcessing st
      | other \<Rightarrow> True)"

text \<open>
  What happens in the loop, with its time: a click on an enabled button (or another
  invocation), which starts the handler's script, or the firing of the timer that is due
  next. A click at a time comes after every timer due before it; a timer fires at the
  time it is due. \<open>None\<close> marks an occurrence that cannot take place.
\<close>

datatype occurrence = Click nat cpe_event | Timeout nat

definition occur :: "occurrence \<Rightarrow> loop \<Rightarrow> loop option" where
  "occur oc l =
     (case oc of
        Click t e \<Rightarrow>
          (if clock l \<le> t
              \<and> (case timers l of [] \<Rightarrow> True | (due, rest) # others \<Rightarrow> t < due)
              \<and> button_enabled e (component l)
           then Some (resume (script_of e) (l\<lparr>clock := t\<rparr>))
           else None)
      | Timeout t \<Rightarrow>
          (case timers l of
             [] \<Rightarrow> None
           | (due, rest) # others \<Rightarrow>
               (if due = t \<and> clock l \<le> t
                then Some (resume rest (l\<lparr>clock := t, timers := others\<rparr>))
                else None)))"

text \<open>The loops a sequence of occurrences goes through, the starting loop first.\<close>

fun run_loop :: "loop \<Rightarrow> occurrence list \<Rightarrow> loop list option" where
  "run_loop l [] = Some [l]"
| "run_loop l (oc # ocs) =
     (case occur oc l of
        None \<Rightarrow> None
      | Some l' \<Rightarrow>
          (case run_loop l' ocs of
             None \<Rightarrow> None
           | Some ls \<Rightarrow> Some (l # ls)))"

text \<open>
  A technician who clicks the step-2 button again each time it is enabled again: the
  start at 0 ms, the step-2 button at 2000, 4400 and 6800 ms, the activation at 9600 ms,
  and in between the timers as they fall due.
\<close>

definition rapid_step2_clicks :: "occurrence list" where
  "rapid_step2_clicks =
     [Click 0 StartProvisioning, Timeout 1500,
      Click 2000 (Step2Actions ''00:1A:2B:3C:4D:5E''), Timeout 4000,
      Click 4400 (Step2Actions ''00:1A:2B:3C:4D:5F''), Timeout 4500, Timeout 5500, Timeout 6400,
      Click 6800 (Step2Actions ''00:1A:2B:3C:4D:60''), Timeout 6900, Timeout 7000, Timeout 7900,
      Timeout 8000, Timeout 8800, Timeout 9300, Timeout 9400, Timeout 9500,
      Click 9600 Activate, Timeout 10300, Timeout 10400, Timeout 11600, Timeout 11800,
      Timeout 11900, Timeout 12800, Timeout 13100, Timeout 14100, Timeout 14300]"

section \<open>Predictive maintenance\<close>

subsection \<open>Telemetry readings\<close>

text \<open>
  An entry of \<open>data.telemetryData\<close> as the Apex method \<open>getPredictiveData\<close> returns it:
  the value, the two thresholds and the \<open>status\<close> string, which the controller
  (not among the sources) computes. The component reads the status; it does not compare
  the value with the thresholds. The \<open>unit\<close> field is display text and left out.
\<close>

record reading =
  rd_value :: rat
  rd_minThreshold :: rat
  rd_maxThreshold :: rat
  rd_status :: string










subsection \<open>State, wires and the work plan action\<close>

record pm_data =
  telemetryData :: "reading list"
  upcomingWorkOrderId :: "string option"

record pm_state =
  pm_recordId :: string
  pm_data :: "pm_data option"
  workOrders :: "string list"
  selectedWorkOrderId :: "string option"
  pm_isLoading :: bool
  isCreating :: bool
  showWorkOrderModal :: bool
  pm_workPlanCreated :: bool
  createdWorkPlanId :: "string option"
  pm_out :: "effect list"

definition wiredData :: "pm_data wire_result \<Rightarrow> pm_state \<Rightarrow> pm_state" where
  "wiredData result st =
     (case wr_data result of
        Some d \<Rightarrow> st\<lparr>pm_data := Some d, pm_isLoading := False\<rparr>
      | None \<Rightarrow>
          (case wr_error result of
             Some e \<Rightarrow>
               st\<lparr>pm_isLoading := False,
                  pm_out := pm_out st @ [ConsoleError ''Error loading predictive data:'']\<rparr>
           | None \<Rightarrow> st))"

definition wiredWorkOrders :: "string list wire_result \<Rightarrow> pm_state \<Rightarrow> pm_state" where
  "wiredWorkOrders result st =
     (case wr_data result of
        Some d \<Rightarrow> st\<lparr>workOrders := d\<rparr>
      | None \<Rightarrow> st)"


text \<open>
  \<open>createWorkPlan\<close>, with the way the Apex method \<open>createPreventiveWorkPlan\<close> settles as a
  parameter. On success the wired data is refreshed with \<open>refreshApex\<close>.
\<close>

definition createWorkPlan :: "string outcome \<Rightarrow> pm_state \<Rightarrow> pm_state" where
  "createWorkPlan created st =
     (case created of
        Resolved workPlanId \<Rightarrow>
          st\<lparr>isCreating := False, showWorkOrderModal := False,
             createdWorkPlanId := Some workPlanId, pm_workPlanCreated := True,
             pm_out := pm_out st @
               [RemoteCall ''createPreventiveWorkPlan'',
                Toast ''Preventive Work Plan Created''
                  ''A 7-step inspection work plan has been added to the selected work order.''
                  ''success'',
                RemoteCall ''refreshApex'']\<rparr>
      | Rejected e \<Rightarrow>
          st\<lparr>isCreating := False, showWorkOrderModal := False,
             pm_out := pm_out st @
               [RemoteCall ''createPreventiveWorkPlan'',
                ConsoleError ''Error creating work plan:'',
                Toast ''Error'' (message_or e ''Failed to create preventive work plan'')
                  ''error'']\<rparr>)"

section \<open>Order progress\<close>

text \<open>
  The wired function \<open>handleWorkOrderResult\<close> receives \<open>data\<close> (here the nodes of the
  \<open>WorkOrder\<close> edges, \<open>None\<close> when there is no data) and \<open>errors\<close> (\<open>None\<close> when absent; an
  array, even an empty one, is truthy).
\<close>

record op_state =
  op_isLoading :: bool
  workOrderData :: "string option"
  op_out :: "effect list"

definition handleWorkOrderResult ::
    "string list option \<Rightarrow> js_error list option \<Rightarrow> op_state \<Rightarrow> op_state" where
  "handleWorkOrderResult data errors st0 =
     (let st = st0\<lparr>op_isLoading := False\<rparr>;
          st = (case errors of
                  Some errs \<Rightarrow> st\<lparr>op_out := op_out st @ [ConsoleError ''GraphQL errors:'']\<rparr>
                | None \<Rightarrow> st)
      in (case data of
            Some (node # rest) \<Rightarrow> st\<lparr>workOrderData := Some node\<rparr>
          | Some [] \<Rightarrow> st
          | None \<Rightarrow> st))"

section \<open>Reading the journals\<close>

definition is_toast :: "effect \<Rightarrow> bool" where
  "is_toast ev = (case ev of Toast title message variant \<Rightarrow> True | other \<Rightarrow> False)"

text \<open>
  A state of the status update component once the wire has provisioned the record with
  the given status.
\<close>

definition sa_init :: "string \<Rightarrow> string option \<Rightarrow> sa_state" where
  "sa_init rid status =
     \<lparr>sa_recordId = rid, sa_status = status, wire_status = status, sa_isProcessing = False,
      showBlockModal = False,
      blockReason = [], blockNotes = [], dependentAppointments = [],
      showDependencyWarning = False, sa_out = []\<rparr>"

text \<open>The predictive maintenance component as it is created, before its wires deliver.\<close>

definition pm_init :: "string \<Rightarrow> pm_state" where
  "pm_init rid =
     \<lparr>pm_recordId = rid, pm_data = None, workOrders = [], selectedWorkOrderId = None,
      pm_isLoading = True, isCreating = False, showWorkOrderModal = False,
      pm_workPlanCreated = False, createdWorkPlanId = None, pm_out = []\<rparr>"

text \<open>The order progress component as it is created.\<close>

definition op_init :: op_state where
  "op_init = \<lparr>op_isLoading = True, workOrderData = None, op_out = []\<rparr>"




text \<open>Every asset of the loaded data set, floor by floor.\<close>

definition loaded_assets :: "loaded_asset list" where
  "loaded_assets = concat (map lf_assets loadHavenDataCenterAssets)"

section \<open>Properties of the threshold classifier\<close>

text \<open>
  C1. For every attribute processed by the building asset map's classifier, the status is
  \<open>critical\<close> exactly when the value is below the minimum threshold, \<open>warning\<close> exactly
  when it is above the maximum threshold and not below the minimum, and \<open>normal\<close> in
  every other case.
\<close>

theorem processAttribute_status:
  "(pa_status (processAttribute a) = ''critical'') = (attr_value a < minThreshold a)
   \<and> (pa_status (processAttribute a) = ''warning'')
       = (attr_value a > maxThreshold a \<and> \<not> attr_value a < minThreshold a)
   \<and> (pa_status (processAttribute a) = ''normal'')
       = (\<not> attr_value a < minThreshold a \<and> \<not> attr_value a > maxThreshold a)"
  by (simp add: processAttribute_def)



section \<open>Properties of the status update component\<close>

subsection \<open>The options offered\<close>

lemma map_of_STATUS_CONFIG_keys:
  "map_of STATUS_CONFIG s = Some c \<Longrightarrow>
     s \<in> {''None'', ''Scheduled'', ''Dispatched'', ''Travel'', ''In Progress'', ''Completed'',
           ''Cannot Complete'', ''Canceled''}"
  by (simp add: STATUS_CONFIG_def split: if_splits)


lemma spec_table_rows:
  "map_of spec_table s = Some nexts \<Longrightarrow>
     (\<exists>c. map_of STATUS_CONFIG s = Some c \<and> cfg_next c = nexts)"
  by (simp add: spec_table_def STATUS_CONFIG_def split: if_splits)

lemma next_options_Own:
  "map_of STATUS_CONFIG s = Some c \<Longrightarrow>
     \<exists>opts. next_options_of s = Inr opts \<and> map opt_value opts = cfg_next c
            \<and> map opt_label opts = cfg_next c"
  by (simp add: next_options_of_def statusConfig_of_def STATUS_CONFIG_get_def comp_def)

lemma map_of_None_row: "\<exists>c. map_of STATUS_CONFIG ''None'' = Some c \<and> cfg_next c = [''Scheduled'']"
  by (simp add: STATUS_CONFIG_def)


text \<open>
  C2. For every current status that has a row in the spec's transition table, the next
  statuses offered are exactly that row, in order, and an update is possible exactly when
  the row is not empty; for the terminal statuses \<open>Completed\<close>, \<open>Cannot Complete\<close> and
  \<open>Canceled\<close> nothing is offered.
\<close>

theorem nextStatusOptions_table:
  "(map_of spec_table (currentStatus st) = Some nexts \<longrightarrow>
      (\<exists>opts. nextStatusOptions st = Inr opts \<and> map opt_value opts = nexts
              \<and> map opt_label opts = nexts)
      \<and> canUpdateStatus st = Inr (nexts \<noteq> []))
   \<and> (currentStatus st \<in> {''Completed'', ''Cannot Complete'', ''Canceled''} \<longrightarrow>
        nextStatusOptions st = Inr [] \<and> canUpdateStatus st = Inr False)"
proof (intro conjI impI)
  assume row: "map_of spec_table (currentStatus st) = Some nexts"
  then obtain c where c: "map_of STATUS_CONFIG (currentStatus st) = Some c" "cfg_next c = nexts"
    using spec_table_rows by blast
  from next_options_Own [OF c(1)] c(2)
  show "\<exists>opts. nextStatusOptions st = Inr opts \<and> map opt_value opts = nexts
             \<and> map opt_label opts = nexts"
    by (simp add: nextStatusOptions_def)
  from c show "canUpdateStatus st = Inr (nexts \<noteq> [])"
    by (auto simp add: canUpdateStatus_def statusConfig_def statusConfig_of_def STATUS_CONFIG_get_def)
next
  assume t: "currentStatus st \<in> {''Completed'', ''Cannot Complete'', ''Canceled''}"
  then show "nextStatusOptions st = Inr []"
    by (auto simp add: nextStatusOptions_def next_options_of_def statusConfig_of_def
        STATUS_CONFIG_get_def STATUS_CONFIG_def)
  from t show "canUpdateStatus st = Inr False"
    by (auto simp add: canUpdateStatus_def statusConfig_def statusConfig_of_def
        STATUS_CONFIG_get_def STATUS_CONFIG_def)
qed

text \<open>
  The table at \<open>Dispatched\<close> and at \<open>Canceled\<close>.
\<close>

theorem nextStatusOptions_table_witness:
  "map_of spec_table (currentStatus (sa_init ''SA-0001'' (Some ''Dispatched'')))
     = Some [''Travel'', ''In Progress'']
   \<and> map_sum id (map opt_value) (nextStatusOptions (sa_init ''SA-0001'' (Some ''Dispatched'')))
     = Inr [''Travel'', ''In Progress'']
   \<and> canUpdateStatus (sa_init ''SA-0001'' (Some ''Dispatched'')) = Inr True
   \<and> currentStatus (sa_init ''SA-0001'' (Some ''Canceled''))
       \<in> {''Completed'', ''Cannot Complete'', ''Canceled''}
   \<and> nextStatusOptions (sa_init ''SA-0001'' (Some ''Canceled'')) = Inr []"
proof -
  have row: "map_of spec_table (currentStatus (sa_init ''SA-0001'' (Some ''Dispatched'')))
     = Some [''Travel'', ''In Progress'']"
    by (simp add: spec_table_def currentStatus_def status_text_def sa_init_def)
  have terminal: "currentStatus (sa_init ''SA-0001'' (Some ''Canceled''))
       \<in> {''Completed'', ''Cannot Complete'', ''Canceled''}"
    by (simp add: currentStatus_def status_text_def sa_init_def)
  from row terminal
    nextStatusOptions_table [of "sa_init ''SA-0001'' (Some ''Dispatched'')" "[''Travel'', ''In Progress'']"]
    nextStatusOptions_table [of "sa_init ''SA-0001'' (Some ''Canceled'')" "[]"]
  show ?thesis by auto
qed

text \<open>
  A status that is neither configured nor the name of an inherited property is served from
  the configuration of \<open>None\<close>.
\<close>

lemma unconfigured_status_falls_back:
  assumes "currentStatus st \<notin> set (map fst STATUS_CONFIG)"
    and "currentStatus st \<notin> set OBJECT_PROTOTYPE_KEYS"
  shows "map_sum id (map opt_value) (nextStatusOptions st) = Inr [''Scheduled'']
         \<and> showBlockButton st"
proof -
  from assms(1) have none: "map_of STATUS_CONFIG (currentStatus st) = None"
    by (simp add: map_of_eq_None_iff)
  with assms(2) have "statusConfig_of (currentStatus st) = STATUS_CONFIG_get ''None''"
    by (simp add: statusConfig_of_def STATUS_CONFIG_get_def)
  then have "map_sum id (map opt_value) (nextStatusOptions st) = Inr [''Scheduled'']"
    by (simp add: nextStatusOptions_def next_options_of_def STATUS_CONFIG_get_def STATUS_CONFIG_def)
  moreover from assms(1) have "showBlockButton st"
    by (auto simp add: showBlockButton_def STATUS_CONFIG_def)
  ultimately show ?thesis by simp
qed

text \<open>
  C10. A status outside the eight configured ones should be served from the
  configuration of \<open>None\<close>. For the status \<open>constructor\<close> it is not: the lookup finds the
  inherited member, the getters \<open>nextStatusOptions\<close> and \<open>canUpdateStatus\<close> throw, and
  only the block button is left.
\<close>

theorem statusConfig_inherited_key:
  "currentStatus (sa_init rid (Some ''constructor'')) = ''constructor''
   \<and> ''constructor'' \<notin> set (map fst STATUS_CONFIG)
   \<and> statusConfig (sa_init rid (Some ''constructor'')) = Inherited
   \<and> nextStatusOptions (sa_init rid (Some ''constructor'')) = Inl TypeError
   \<and> canUpdateStatus (sa_init rid (Some ''constructor'')) = Inl TypeError
   \<and> showBlockButton (sa_init rid (Some ''constructor''))"
  by (simp add: currentStatus_def status_text_def sa_init_def STATUS_CONFIG_def statusConfig_def
      statusConfig_of_def STATUS_CONFIG_get_def OBJECT_PROTOTYPE_KEYS_def nextStatusOptions_def
      next_options_of_def canUpdateStatus_def showBlockButton_def)

subsection \<open>Status changes\<close>









text \<open>
  C8. The block flow is not atomic: when a reason is selected, the record update resolves
  and the RSO trigger rejects, the handler reports an error toast, the stored status is
  \<open>Cannot Complete\<close> all the same (no second update is made) and is what the component
  displays once the wire provisions the record, and the modal stays open with its reason.
\<close>

theorem block_flow_not_atomic:
  "blockReason st \<noteq> [] \<Longrightarrow>
     sa_status (handleConfirmBlock (Resolved ()) (Rejected e) st) = Some ''Cannot Complete''
     \<and> currentStatus (wire_refreshed (handleConfirmBlock (Resolved ()) (Rejected e) st))
         = ''Cannot Complete''
     \<and> sa_out (handleConfirmBlock (Resolved ()) (Rejected e) st) =
         sa_out st @
         [RemoteCall ''updateRecord'', RemoteCall ''triggerRSOForBlockedAppointment'',
          Toast ''Error'' (message_or e ''Failed to block appointment'') ''error'']
     \<and> showBlockModal (handleConfirmBlock (Resolved ()) (Rejected e) st) = showBlockModal st
     \<and> blockReason (handleConfirmBlock (Resolved ()) (Rejected e) st) = blockReason st"
  by (simp add: handleConfirmBlock_def currentStatus_def status_text_def wire_refreshed_def
      serviceAppointmentResult_provisioned_def)

text \<open>
  A block of an appointment in progress whose RSO trigger fails.
\<close>

theorem block_flow_not_atomic_witness:
  "blockReason (handleBlockReasonChange ''Equipment Failure''
       (handleBlockClick (Resolved None) (sa_init ''SA-0001'' (Some ''In Progress'')))) \<noteq> []
   \<and> sa_status (handleConfirmBlock (Resolved ()) (Rejected (JsError (Some ''RSO unavailable'')))
       (handleBlockReasonChange ''Equipment Failure''
          (handleBlockClick (Resolved None) (sa_init ''SA-0001'' (Some ''In Progress'')))))
     = Some ''Cannot Complete''
   \<and> currentStatus (wire_refreshed
       (handleConfirmBlock (Resolved ()) (Rejected (JsError (Some ''RSO unavailable'')))
          (handleBlockReasonChange ''Equipment Failure''
             (handleBlockClick (Resolved None) (sa_init ''SA-0001'' (Some ''In Progress''))))))
     = ''Cannot Complete''
   \<and> sa_out (handleConfirmBlock (Resolved ()) (Rejected (JsError (Some ''RSO unavailable'')))
       (handleBlockReasonChange ''Equipment Failure''
          (handleBlockClick (Resolved None) (sa_init ''SA-0001'' (Some ''In Progress'')))))
     = [RemoteCall ''getAppointmentChain'', RemoteCall ''updateRecord'',
        RemoteCall ''triggerRSOForBlockedAppointment'',
        Toast ''Error'' ''RSO unavailable'' ''error'']"
proof -
  let ?st = "handleBlockReasonChange ''Equipment Failure''
       (handleBlockClick (Resolved None) (sa_init ''SA-0001'' (Some ''In Progress'')))"
  let ?e = "JsError (Some ''RSO unavailable'')"
  have reason: "blockReason ?st \<noteq> []"
    by (simp add: handleBlockReasonChange_def)
  have out: "sa_out ?st = [RemoteCall ''getAppointmentChain'']"
    by (simp add: handleBlockReasonChange_def handleBlockClick_def loadDependentAppointments_def
        sa_init_def)
  have msg: "message_or ?e ''Failed to block appointment'' = ''RSO unavailable''"
    by (simp add: message_or_def)
  from block_flow_not_atomic [OF reason, of ?e]
  have "sa_status (handleConfirmBlock (Resolved ()) (Rejected ?e) ?st) = Some ''Cannot Complete''"
    and "currentStatus (wire_refreshed (handleConfirmBlock (Resolved ()) (Rejected ?e) ?st))
      = ''Cannot Complete''"
    and "sa_out (handleConfirmBlock (Resolved ()) (Rejected ?e) ?st)
      = sa_out ?st @ [RemoteCall ''updateRecord'', RemoteCall ''triggerRSOForBlockedAppointment'',
          Toast ''Error'' (message_or ?e ''Failed to block appointment'') ''error'']"
    by blast+
  with reason show ?thesis
    unfolding out msg by simp
qed

section \<open>Properties of the provisioning wizard\<close>

lemma currentStep_prims:
  "currentStep (set_isProcessing b st) = currentStep st"
  "currentStep (set_adaptStatus s st) = currentStep st"
  "currentStep (addLog m t st) = currentStep st"
  "currentStep (delay ms st) = currentStep st"
  "currentStep (dispatchEvent ev st) = currentStep st"
  "currentStep (set_currentStep n st) = n"
  by (simp_all add: set_isProcessing_def set_adaptStatus_def addLog_def delay_def
      dispatchEvent_def set_currentStep_def)













subsection \<open>Overlapping invocations\<close>

text \<open>
  The scripts are the methods: a script run to its end with nothing in between is the
  handler run to completion.
\<close>

lemma run_script_is_handler: "run_script (script_of e) st = cpe_handle e st"
  by (cases e)
    (simp_all add: connectToADAPT_script_def handleStep2Actions_script_def
      validateSerial_script_def provisionCPE_script_def runSignalTest_script_def
      activateService_script_def connectToADAPT_begin_def connectToADAPT_end_def
      validateSerial_begin_def validateSerial_end_def provisionCPE_begin_def
      provisionCPE_end_def runSignalTest_begin_def runSignalTest_end_def
      activateService_begin_def activateService_end_def handleStartProvisioning_def
      connectToADAPT_def handleStep2Actions_def validateSerial_def provisionCPE_def
      handleRunSignalTest_def runSignalTest_def handleActivate_def activateService_def
      Let_def)

lemma isProcessing_prims:
  "isProcessing (set_isProcessing b st) = b"
  "isProcessing (set_adaptStatus s st) = isProcessing st"
  "isProcessing (addLog m t st) = isProcessing st"
  "isProcessing (delay ms st) = isProcessing st"
  "isProcessing (dispatchEvent ev st) = isProcessing st"
  "isProcessing (set_currentStep n st) = isProcessing st"
  by (simp_all add: set_isProcessing_def set_adaptStatus_def addLog_def delay_def
      dispatchEvent_def set_currentStep_def)

lemma currentStep_segments:
  "currentStep (connectToADAPT_begin st) = currentStep st"
  "currentStep (connectToADAPT_end st) = 2"
  "currentStep (validateSerial_begin st) = currentStep st"
  "currentStep (validateSerial_end mac st) = currentStep st"
  "currentStep (provisionCPE_begin st) = currentStep st"
  "currentStep (provisionCPE_end st) = 3"
  "currentStep (activateService_begin st) = currentStep st"
  "currentStep (activateService_end st) = 4"
  by (simp_all add: connectToADAPT_begin_def connectToADAPT_end_def validateSerial_begin_def
      validateSerial_end_def provisionCPE_begin_def provisionCPE_end_def
      activateService_begin_def activateService_end_def Let_def currentStep_prims)

lemma isProcessing_segments:
  "isProcessing (connectToADAPT_begin st) = True"
  "isProcessing (connectToADAPT_end st) = False"
  "isProcessing (validateSerial_begin st) = True"
  "isProcessing (validateSerial_end mac st) = False"
  "isProcessing (provisionCPE_begin st) = True"
  "isProcessing (provisionCPE_end st) = False"
  "isProcessing (activateService_begin st) = True"
  "isProcessing (activateService_end st) = False"
  by (simp_all add: connectToADAPT_begin_def connectToADAPT_end_def validateSerial_begin_def
      validateSerial_end_def provisionCPE_begin_def provisionCPE_end_def
      activateService_begin_def activateService_end_def Let_def isProcessing_prims)

lemma init_fields:
  "currentStep (cpe_init account woNumber serial assetId) = 1"
  "isProcessing (cpe_init account woNumber serial assetId) = False"
  "wire_assetId (cpe_init account woNumber serial assetId) = assetId"
  by (simp_all add: cpe_init_def)

lemmas loop_eval = occur_def button_enabled_def isStep1_def isStep2_def isStep3_def
  disableStartProvisioning_def connectToADAPT_script_def handleStep2Actions_script_def
  validateSerial_script_def provisionCPE_script_def activateService_script_def
  currentStep_prims isProcessing_prims currentStep_segments isProcessing_segments init_fields
  loop_init_def

text \<open>
  C4. From the initial state \<open>currentStep\<close> should go 1, 2, 3, 4 and never back. It does
  not when invocations of the step-2 handler overlap: \<open>validateSerial\<close> clears
  \<open>isProcessing\<close> before \<open>provisionCPE\<close> sets it again, so the step-2 button is enabled
  again half-way through the handler. Each click of \<open>rapid_step2_clicks\<close> is on a button
  of the current step while \<open>isProcessing\<close> is false, and each timer fires when it is
  due; the third run of the step-2 handler ends after the activation has, and takes
  \<open>currentStep\<close> from 4 back to 3.
\<close>

theorem overlapping_step2_runs_step_back:
  "map_option (map (currentStep \<circ> component))
     (run_loop (loop_init (cpe_init None None None (Some ''02i5e''))) rapid_step2_clicks)
     = Some [1, 1, 2, 2, 2, 2, 2, 2, 2, 2, 2, 2, 2, 2, 2, 2, 2, 3, 3, 3, 3, 3, 3, 3, 3, 3, 4, 3]
   \<and> (case run_loop (loop_init (cpe_init None None None (Some ''02i5e''))) rapid_step2_clicks of
        None \<Rightarrow> False
      | Some ls \<Rightarrow> \<not> successively step_forward (map (currentStep \<circ> component) ls))"
  by (simp add: rapid_step2_clicks_def loop_eval step_forward_def)

section \<open>Properties of the loaded data set\<close>

text \<open>
  The fifteen assets, and for each whether one of its attributes is out of range.
\<close>

lemma loaded_assets_eq:
  "loaded_assets =
     map load_asset
       [asset_haven_olt_001, asset_haven_olt_002, asset_sea_002, asset_sea_003, asset_sea_004,
        asset_sea_005, asset_sea_006, asset_sea_007, asset_sea_008, asset_sea_009,
        asset_sea_010, asset_haven_ups_001, asset_sea_012, asset_sea_013, asset_sea_014]"
  by (simp add: loaded_assets_def loadHavenDataCenterAssets_def HAVEN_FLOORS_def)

lemma out_of_range_status:
  "(pa_status (processAttribute x) = ''warning'' \<or> pa_status (processAttribute x) = ''critical'')
     = (attr_value x < minThreshold x \<or> attr_value x > maxThreshold x)"
  by (simp add: processAttribute_def)

lemma load_asset_fields:
  "la_id (load_asset a) = asset_id a"
  "la_status (load_asset a) = asset_status a"
  "hasWarnings (load_asset a) =
     (\<exists>x \<in> set (attributes a). attr_value x < minThreshold x \<or> attr_value x > maxThreshold x)"
  by (simp_all add: load_asset_def Let_def filter_map comp_def out_of_range_status
      filter_empty_conv)

lemma hw_haven_olt_001: "\<not> hasWarnings (load_asset asset_haven_olt_001) \<and> asset_status asset_haven_olt_001 = ''Active'' \<and> asset_id asset_haven_olt_001 = ''haven-olt-001''"
  by (simp add: load_asset_fields asset_haven_olt_001_def)

lemma hw_haven_olt_002: "hasWarnings (load_asset asset_haven_olt_002) \<and> asset_status asset_haven_olt_002 = ''Warning'' \<and> asset_id asset_haven_olt_002 = ''haven-olt-002''"
  by (simp add: load_asset_fields asset_haven_olt_002_def)

lemma hw_sea_002: "\<not> hasWarnings (load_asset asset_sea_002) \<and> asset_status asset_sea_002 = ''Active'' \<and> asset_id asset_sea_002 = ''sea-002''"
  by (simp add: load_asset_fields asset_sea_002_def)

lemma hw_sea_003: "\<not> hasWarnings (load_asset asset_sea_003) \<and> asset_status asset_sea_003 = ''Active'' \<and> asset_id asset_sea_003 = ''sea-003''"
  by (simp add: load_asset_fields asset_sea_003_def)

lemma hw_sea_004: "\<not> hasWarnings (load_asset asset_sea_004) \<and> asset_status asset_sea_004 = ''Active'' \<and> asset_id asset_sea_004 = ''sea-004''"
  by (simp add: load_asset_fields asset_sea_004_def)

lemma hw_sea_005: "\<not> hasWarnings (load_asset asset_sea_005) \<and> asset_status asset_sea_005 = ''Active'' \<and> asset_id asset_sea_005 = ''sea-005''"
  by (simp add: load_asset_fields asset_sea_005_def)

lemma hw_sea_006: "\<not> hasWarnings (load_asset asset_sea_006) \<and> asset_status asset_sea_006 = ''Active'' \<and> asset_id asset_sea_006 = ''sea-006''"
  by (simp add: load_asset_fields asset_sea_006_def)

lemma hw_sea_007: "hasWarnings (load_asset asset_sea_007) \<and> asset_status asset_sea_007 = ''Warning'' \<and> asset_id asset_sea_007 = ''sea-007''"
  by (simp add: load_asset_fields asset_sea_007_def)

lemma hw_sea_008: "\<not> hasWarnings (load_asset asset_sea_008) \<and> asset_status asset_sea_008 = ''Active'' \<and> asset_id asset_sea_008 = ''sea-008''"
  by (simp add: load_asset_fields asset_sea_008_def)

lemma hw_sea_009: "\<not> hasWarnings (load_asset asset_sea_009) \<and> asset_status asset_sea_009 = ''Active'' \<and> asset_id asset_sea_009 = ''sea-009''"
  by (simp add: load_asset_fields asset_sea_009_def)

lemma hw_sea_010: "\<not> hasWarnings (load_asset asset_sea_010) \<and> asset_status asset_sea_010 = ''Active'' \<and> asset_id asset_sea_010 = ''sea-010''"
  by (simp add: load_asset_fields asset_sea_010_def)

lemma hw_haven_ups_001: "hasWarnings (load_asset asset_haven_ups_001) \<and> asset_status asset_haven_ups_001 = ''Warning'' \<and> asset_id asset_haven_ups_001 = ''haven-ups-001''"
  by (simp add: load_asset_fields asset_haven_ups_001_def)

lemma hw_sea_012: "\<not> hasWarnings (load_asset asset_sea_012) \<and> asset_status asset_sea_012 = ''Active'' \<and> asset_id asset_sea_012 = ''sea-012''"
  by (simp add: load_asset_fields asset_sea_012_def)

lemma hw_sea_013: "hasWarnings (load_asset asset_sea_013) \<and> asset_status asset_sea_013 = ''Warning'' \<and> asset_id asset_sea_013 = ''sea-013''"
  by (simp add: load_asset_fields asset_sea_013_def)

lemma hw_sea_014: "\<not> hasWarnings (load_asset asset_sea_014) \<and> asset_status asset_sea_014 = ''Active'' \<and> asset_id asset_sea_014 = ''sea-014''"
  by (simp add: load_asset_fields asset_sea_014_def)

lemmas hw_all = hw_haven_olt_001 hw_haven_olt_002 hw_sea_002 hw_sea_003 hw_sea_004 hw_sea_005
  hw_sea_006 hw_sea_007 hw_sea_008 hw_sea_009 hw_sea_010 hw_haven_ups_001 hw_sea_012
  hw_sea_013 hw_sea_014

lemma loaded_status_iff_hasWarnings:
  "a \<in> set loaded_assets \<Longrightarrow> (la_status a = ''Warning'') = hasWarnings a"
  by (auto simp add: loaded_assets_eq load_asset_fields(1,2) hw_all)

lemma loaded_ids:
  "map la_id loaded_assets =
     [''haven-olt-001'', ''haven-olt-002'', ''sea-002'', ''sea-003'', ''sea-004'', ''sea-005'',
      ''sea-006'', ''sea-007'', ''sea-008'', ''sea-009'', ''sea-010'', ''haven-ups-001'',
      ''sea-012'', ''sea-013'', ''sea-014'']"
  by (simp add: loaded_assets_eq load_asset_fields(1) hw_all)

lemma distinct_loaded_ids: "distinct (map la_id loaded_assets)"
  by (simp add: loaded_ids)

lemma find_distinct:
  "distinct (map f xs) \<Longrightarrow> a \<in> set xs \<Longrightarrow> find (\<lambda>x. f x = f a) xs = Some a"
  by (induction xs) (auto simp add: image_iff)

lemma find_asset_distinct:
  "distinct (map la_id (concat (map lf_assets fs))) \<Longrightarrow> a \<in> set (concat (map lf_assets fs)) \<Longrightarrow>
     find_asset fs (la_id a) = Some a"
proof (induction fs)
  case Nil
  then show ?case by simp
next
  case (Cons f fs)
  show ?case
  proof (cases "a \<in> set (lf_assets f)")
    case True
    with Cons.prems have "find (\<lambda>x. la_id x = la_id a) (lf_assets f) = Some a"
      by (intro find_distinct) simp_all
    then show ?thesis by simp
  next
    case False
    with Cons.prems have rest: "a \<in> set (concat (map lf_assets fs))" by simp
    from Cons.prems have "la_id a \<notin> la_id ` set (lf_assets f)"
      using rest by (auto simp add: image_iff)
    then have "find (\<lambda>x. la_id x = la_id a) (lf_assets f) = None"
      by (auto simp add: find_None_iff image_iff)
    moreover from Cons.prems rest have "find_asset fs (la_id a) = Some a"
      by (intro Cons.IH) simp_all
    ultimately show ?thesis by simp
  qed
qed

lemma handleAssetClick_selects:
  "a \<in> set loaded_assets \<Longrightarrow>
     selectedAsset (handleAssetClick (la_id a) (bam_init rid)) = Some a"
  using find_asset_distinct [of loadHavenDataCenterAssets a] distinct_loaded_ids
  by (simp add: handleAssetClick_def bam_init_def loaded_assets_def)

lemma handleAddInspectionWorkPlan_acts:
  "selectedAsset st = Some a \<Longrightarrow>
     (handleAddInspectionWorkPlan created st \<noteq> st) = hasWarnings a"
proof (cases "hasWarnings a")
  case False
  assume "selectedAsset st = Some a"
  with False show ?thesis by (simp add: handleAddInspectionWorkPlan_def)
next
  case True
  assume sel: "selectedAsset st = Some a"
  have "bam_out (handleAddInspectionWorkPlan created st) \<noteq> bam_out st"
    using sel True by (cases created) (simp_all add: handleAddInspectionWorkPlan_def)
  then have "handleAddInspectionWorkPlan created st \<noteq> st" by auto
  with True show ?thesis by simp
qed

text \<open>
  C9. After loading, an asset of the hardcoded data set has the status \<open>Warning\<close>
  exactly when \<open>hasWarnings\<close> is set, that is when one of its attributes is classified
  \<open>warning\<close> or \<open>critical\<close>; clicking the asset selects it, and
  \<open>handleAddInspectionWorkPlan\<close> then does something exactly for the assets marked
  \<open>Warning\<close>.
\<close>

theorem warning_status_iff_hasWarnings:
  "\<forall>a \<in> set loaded_assets.
     (la_status a = ''Warning'') = hasWarnings a
     \<and> selectedAsset (handleAssetClick (la_id a) (bam_init rid)) = Some a
     \<and> (handleAddInspectionWorkPlan created (handleAssetClick (la_id a) (bam_init rid))
          \<noteq> handleAssetClick (la_id a) (bam_init rid))
        = (la_status a = ''Warning'')"
proof
  fix a assume a: "a \<in> set loaded_assets"
  then have sel: "selectedAsset (handleAssetClick (la_id a) (bam_init rid)) = Some a"
    by (rule handleAssetClick_selects)
  from a have st: "(la_status a = ''Warning'') = hasWarnings a"
    by (rule loaded_status_iff_hasWarnings)
  from handleAddInspectionWorkPlan_acts [OF sel, of created] sel st
  show "(la_status a = ''Warning'') = hasWarnings a
     \<and> selectedAsset (handleAssetClick (la_id a) (bam_init rid)) = Some a
     \<and> (handleAddInspectionWorkPlan created (handleAssetClick (la_id a) (bam_init rid))
          \<noteq> handleAssetClick (la_id a) (bam_init rid))
        = (la_status a = ''Warning'')"
    by simp
qed

text \<open>
  The UPS with its battery health below the minimum, and the generator with every
  attribute in range.
\<close>

theorem warning_status_iff_hasWarnings_witness:
  "load_asset asset_haven_ups_001 \<in> set loaded_assets
   \<and> la_status (load_asset asset_haven_ups_001) = ''Warning''
   \<and> hasWarnings (load_asset asset_haven_ups_001)
   \<and> map attr_name (map pa_attr (warningAttributes (load_asset asset_haven_ups_001)))
       = [''Battery Health'']
   \<and> handleAddInspectionWorkPlan (Resolved ''WP-1'')
        (handleAssetClick ''haven-ups-001'' (bam_init (Some ''0WO01'')))
       \<noteq> handleAssetClick ''haven-ups-001'' (bam_init (Some ''0WO01''))
   \<and> load_asset asset_sea_014 \<in> set loaded_assets
   \<and> la_status (load_asset asset_sea_014) = ''Active''
   \<and> handleAddInspectionWorkPlan (Resolved ''WP-1'')
        (handleAssetClick ''sea-014'' (bam_init (Some ''0WO01'')))
       = handleAssetClick ''sea-014'' (bam_init (Some ''0WO01''))"
proof -
  have ups: "load_asset asset_haven_ups_001 \<in> set loaded_assets"
    and gen: "load_asset asset_sea_014 \<in> set loaded_assets"
    by (simp_all add: loaded_assets_eq)
  have ids: "la_id (load_asset asset_haven_ups_001) = ''haven-ups-001''"
    "la_id (load_asset asset_sea_014) = ''sea-014''"
    by (simp_all add: load_asset_fields(1) hw_all)
  have sts: "la_status (load_asset asset_haven_ups_001) = ''Warning''"
    "la_status (load_asset asset_sea_014) = ''Active''"
    by (simp_all add: load_asset_fields(2) hw_all)
  have warn: "map attr_name (map pa_attr (warningAttributes (load_asset asset_haven_ups_001)))
       = [''Battery Health'']"
    by (simp add: load_asset_def Let_def asset_haven_ups_001_def processAttribute_def)
  from warning_status_iff_hasWarnings [of "Some ''0WO01''" "Resolved ''WP-1''"] ups gen
  have "(la_status (load_asset asset_haven_ups_001) = ''Warning'')
          = hasWarnings (load_asset asset_haven_ups_001)"
    and "(handleAddInspectionWorkPlan (Resolved ''WP-1'')
          (handleAssetClick (la_id (load_asset asset_haven_ups_001)) (bam_init (Some ''0WO01'')))
          \<noteq> handleAssetClick (la_id (load_asset asset_haven_ups_001)) (bam_init (Some ''0WO01'')))
        = (la_status (load_asset asset_haven_ups_001) = ''Warning'')"
    and "(handleAddInspectionWorkPlan (Resolved ''WP-1'')
          (handleAssetClick (la_id (load_asset asset_sea_014)) (bam_init (Some ''0WO01'')))
          \<noteq> handleAssetClick (la_id (load_asset asset_sea_014)) (bam_init (Some ''0WO01'')))
        = (la_status (load_asset asset_sea_014) = ''Warning'')"
    by blast+
  with ups gen warn show ?thesis
    unfolding ids sts by simp
qed

section \<open>Failures of remote calls\<close>

text \<open>
  A failed load raises no toast: the rejected chain lookup of the status update
  component, the error of the predictive data wire and the errors of the work order wire
  of the order progress component each end in \<open>console.error\<close> alone, and a failure of
  the appointment wire of the status update component is neither shown nor logged.
\<close>

theorem load_failures_not_surfaced_counterexample:
  "sa_out (handleBlockClick (Rejected (JsError (Some ''Network error'')))
      (sa_init ''SA-0001'' (Some ''Scheduled'')))
     = [RemoteCall ''getAppointmentChain'', ConsoleError ''Error loading dependencies:'']
   \<and> \<not> (\<exists>ev \<in> set (sa_out (handleBlockClick (Rejected (JsError (Some ''Network error'')))
                 (sa_init ''SA-0001'' (Some ''Scheduled'')))). is_toast ev)
   \<and> pm_out (wiredData \<lparr>wr_data = None, wr_error = Some (JsError (Some ''Network error''))\<rparr>
        (pm_init ''02i01''))
     = [ConsoleError ''Error loading predictive data:'']
   \<and> op_out (handleWorkOrderResult None (Some [JsError (Some ''Network error'')]) op_init)
     = [ConsoleError ''GraphQL errors:'']
   \<and> sa_out (serviceAppointmentResult_provisioned
        \<lparr>wr_data = None, wr_error = Some (JsError (Some ''Network error''))\<rparr>
        (sa_init ''SA-0001'' (Some ''Scheduled'')))
     = []"
  by (simp add: handleBlockClick_def loadDependentAppointments_def sa_init_def is_toast_def
      wiredData_def handleWorkOrderResult_def pm_init_def op_init_def
      serviceAppointmentResult_provisioned_def)

text \<open>
  C7, as amended. No failed remote call is retried, and what a failure leads to depends
  on how the call is made. A call that a user action starts (\<open>updateRecord\<close> in the
  status update and in the block flow, \<open>triggerRSOForBlockedAppointment\<close>,
  \<open>createPreventiveWorkPlan\<close>, \<open>createInspectionWorkPlan\<close>) is caught and surfaced as one
  error toast. A load that a function handles (\<open>getAppointmentChain\<close>, the
  \<open>getPredictiveData\<close> wire, also when it provisions again after \<open>refreshApex\<close>, which is
  not awaited, and the work order wire of the order progress component) is logged with
  \<open>console.error\<close> and raises no toast. A failure of a GraphQL wire that is bound to a
  property (\<open>serviceAppointmentResult\<close> of the status update component,
  \<open>serviceAppointmentResult\<close> and \<open>workOrderResult\<close> of the provisioning component) is
  neither shown nor logged: the getters fall back to \<open>None\<close>, \<open>N/A\<close> and
  \<open>Loading...\<close>.
\<close>

theorem remote_failures_toast_or_log:
  "sa_out (updateAppointmentStatus newStatus (Rejected e) st) =
     sa_out st @ [RemoteCall ''updateRecord'',
                  Toast ''Error'' (message_or e ''Failed to update status'') ''error'']
   \<and> (blockReason st \<noteq> [] \<longrightarrow>
        sa_out (handleConfirmBlock (Rejected e) rso st) =
          sa_out st @ [RemoteCall ''updateRecord'',
                       Toast ''Error'' (message_or e ''Failed to block appointment'') ''error'']
        \<and> sa_out (handleConfirmBlock (Resolved ()) (Rejected e) st) =
          sa_out st @ [RemoteCall ''updateRecord'',
                       RemoteCall ''triggerRSOForBlockedAppointment'',
                       Toast ''Error'' (message_or e ''Failed to block appointment'') ''error''])
   \<and> pm_out (createWorkPlan (Rejected e) pm) =
       pm_out pm @ [RemoteCall ''createPreventiveWorkPlan'',
                    ConsoleError ''Error creating work plan:'',
                    Toast ''Error'' (message_or e ''Failed to create preventive work plan'')
                      ''error'']
   \<and> (selectedAsset bam = Some a \<and> hasWarnings a \<and> bam_recordId bam = Some rid \<and> rid \<noteq> [] \<longrightarrow>
        bam_out (handleAddInspectionWorkPlan (Rejected e) bam) =
          bam_out bam @ [RemoteCall ''createInspectionWorkPlan'',
                         ConsoleError ''Error creating work plan:'',
                         Toast ''Error'' (message_or e ''Failed to create inspection work plan'')
                           ''error''])
   \<and> sa_out (loadDependentAppointments (Rejected e) st) =
       sa_out st @ [RemoteCall ''getAppointmentChain'',
                    ConsoleError ''Error loading dependencies:'']
   \<and> (wr_data predictive = None \<and> wr_error predictive = Some e \<longrightarrow>
        pm_out (wiredData predictive pm) =
          pm_out pm @ [ConsoleError ''Error loading predictive data:'']
        \<and> pm_out (wiredData predictive (createWorkPlan (Resolved workPlanId) pm)) =
          pm_out pm @ [RemoteCall ''createPreventiveWorkPlan'',
                       Toast ''Preventive Work Plan Created''
                         ''A 7-step inspection work plan has been added to the selected work order.''
                         ''success'',
                       RemoteCall ''refreshApex'',
                       ConsoleError ''Error loading predictive data:''])
   \<and> op_out (handleWorkOrderResult data (Some errs) op) =
       op_out op @ [ConsoleError ''GraphQL errors:'']
   \<and> (wr_data appointment = None \<longrightarrow>
        sa_out (serviceAppointmentResult_provisioned appointment st) = sa_out st
        \<and> currentStatus (serviceAppointmentResult_provisioned appointment st) = ''None''
        \<and> journal (cpe_serviceAppointment_provisioned appointment cpe) = journal cpe
        \<and> provisioningLog (cpe_serviceAppointment_provisioned appointment cpe)
            = provisioningLog cpe
        \<and> displayAccountName (cpe_serviceAppointment_provisioned appointment cpe) = ''N/A'')
   \<and> (wr_data workOrder = None \<longrightarrow>
        journal (cpe_workOrder_provisioned workOrder cpe) = journal cpe
        \<and> provisioningLog (cpe_workOrder_provisioned workOrder cpe) = provisioningLog cpe
        \<and> displayWorkOrderNumber (cpe_workOrder_provisioned workOrder cpe) = ''Loading...'')"
proof (intro conjI impI)
  show "op_out (handleWorkOrderResult data (Some errs) op) =
       op_out op @ [ConsoleError ''GraphQL errors:'']"
    by (simp add: handleWorkOrderResult_def Let_def split: option.splits list.splits)
qed (auto simp add: updateAppointmentStatus_def handleConfirmBlock_def createWorkPlan_def
      handleAddInspectionWorkPlan_def loadDependentAppointments_def wiredData_def
      serviceAppointmentResult_provisioned_def currentStatus_def status_text_def
      cpe_serviceAppointment_provisioned_def cpe_workOrder_provisioned_def
      displayAccountName_def displayWorkOrderNumber_def or_else_def)

text \<open>
  A block whose record update fails, a failed inspection work plan for the UPS, the
  predictive data wire delivering an error, and the wires of the status update and the
  provisioning component delivering no data.
\<close>

theorem remote_failures_toast_or_log_witness:
  "blockReason (handleBlockReasonChange ''Other'' (sa_init ''SA-0001'' (Some ''Travel''))) \<noteq> []
   \<and> sa_out (handleConfirmBlock (Rejected (JsError None)) (Resolved None)
        (handleBlockReasonChange ''Other'' (sa_init ''SA-0001'' (Some ''Travel''))))
     = [RemoteCall ''updateRecord'', Toast ''Error'' ''Failed to block appointment'' ''error'']
   \<and> selectedAsset (handleAssetClick ''haven-ups-001'' (bam_init (Some ''0WO01'')))
     = Some (load_asset asset_haven_ups_001)
   \<and> hasWarnings (load_asset asset_haven_ups_001)
   \<and> bam_recordId (handleAssetClick ''haven-ups-001'' (bam_init (Some ''0WO01''))) = Some ''0WO01''
   \<and> bam_out (handleAddInspectionWorkPlan (Rejected (JsError None))
        (handleAssetClick ''haven-ups-001'' (bam_init (Some ''0WO01''))))
     = [RemoteCall ''createInspectionWorkPlan'', ConsoleError ''Error creating work plan:'',
        Toast ''Error'' ''Failed to create inspection work plan'' ''error'']
   \<and> wr_data \<lparr>wr_data = None :: pm_data option, wr_error = Some (JsError None)\<rparr> = None
   \<and> pm_out (wiredData \<lparr>wr_data = None, wr_error = Some (JsError None)\<rparr> (pm_init ''02i01''))
     = [ConsoleError ''Error loading predictive data:'']
   \<and> wr_data \<lparr>wr_data = None :: string option option, wr_error = Some (JsError None)\<rparr> = None
   \<and> currentStatus (serviceAppointmentResult_provisioned
        \<lparr>wr_data = None, wr_error = Some (JsError None)\<rparr>
        (handleBlockReasonChange ''Other'' (sa_init ''SA-0001'' (Some ''Travel'')))) = ''None''
   \<and> wr_data \<lparr>wr_data = None :: work_order_node option, wr_error = Some (JsError None)\<rparr> = None
   \<and> displayWorkOrderNumber (cpe_workOrder_provisioned
        \<lparr>wr_data = None, wr_error = Some (JsError None)\<rparr>
        (cpe_init (Some ''Haven Enterprises'') (Some ''00001234'') (Some ''ONT-1'') (Some ''02i5e'')))
     = ''Loading...''"
proof -
  let ?st = "handleBlockReasonChange ''Other'' (sa_init ''SA-0001'' (Some ''Travel''))"
  let ?bam = "handleAssetClick ''haven-ups-001'' (bam_init (Some ''0WO01''))"
  let ?a = "load_asset asset_haven_ups_001"
  let ?e = "JsError None"
  let ?cpe = "cpe_init (Some ''Haven Enterprises'') (Some ''00001234'') (Some ''ONT-1'') (Some ''02i5e'')"
  have reason: "blockReason ?st \<noteq> []"
    by (simp add: handleBlockReasonChange_def)
  have out: "sa_out ?st = []"
    by (simp add: handleBlockReasonChange_def sa_init_def)
  have "?a \<in> set loaded_assets" by (simp add: loaded_assets_eq)
  from handleAssetClick_selects [OF this, of "Some ''0WO01''"]
  have sel: "selectedAsset ?bam = Some ?a"
    by (simp add: load_asset_fields(1) hw_all)
  have warn: "hasWarnings ?a" by (simp add: hw_all)
  have rid: "bam_recordId ?bam = Some ''0WO01''"
    by (simp add: handleAssetClick_def bam_init_def split: option.splits)
  have bout: "bam_out ?bam = []"
    by (simp add: handleAssetClick_def bam_init_def split: option.splits)
  have w1: "wr_data \<lparr>wr_data = None :: pm_data option, wr_error = Some ?e\<rparr> = None"
    and w2: "wr_error \<lparr>wr_data = None :: pm_data option, wr_error = Some ?e\<rparr> = Some ?e"
    and w3: "wr_data \<lparr>wr_data = None :: string option option, wr_error = Some ?e\<rparr> = None"
    and w4: "wr_data \<lparr>wr_data = None :: work_order_node option, wr_error = Some ?e\<rparr> = None"
    by simp_all
  have pout: "pm_out (pm_init ''02i01'') = []" by (simp add: pm_init_def)
  have msg: "message_or ?e ''Failed to block appointment'' = ''Failed to block appointment''"
    "message_or ?e ''Failed to create inspection work plan''
       = ''Failed to create inspection work plan''"
    by (simp_all add: message_or_def)
  have inst: "(blockReason ?st \<noteq> [] \<longrightarrow>
        sa_out (handleConfirmBlock (Rejected ?e) (Resolved None) ?st) =
          sa_out ?st @ [RemoteCall ''updateRecord'',
                       Toast ''Error'' (message_or ?e ''Failed to block appointment'') ''error''])
     \<and> (selectedAsset ?bam = Some ?a \<and> hasWarnings ?a \<and> bam_recordId ?bam = Some ''0WO01''
          \<and> ''0WO01'' \<noteq> [] \<longrightarrow>
        bam_out (handleAddInspectionWorkPlan (Rejected ?e) ?bam) =
          bam_out ?bam @ [RemoteCall ''createInspectionWorkPlan'',
                         ConsoleError ''Error creating work plan:'',
                         Toast ''Error'' (message_or ?e ''Failed to create inspection work plan'')
                           ''error''])
     \<and> (wr_data \<lparr>wr_data = None :: pm_data option, wr_error = Some ?e\<rparr> = None
          \<and> wr_error \<lparr>wr_data = None :: pm_data option, wr_error = Some ?e\<rparr> = Some ?e \<longrightarrow>
        pm_out (wiredData \<lparr>wr_data = None, wr_error = Some ?e\<rparr> (pm_init ''02i01'')) =
          pm_out (pm_init ''02i01'') @ [ConsoleError ''Error loading predictive data:''])
     \<and> (wr_data \<lparr>wr_data = None :: string option option, wr_error = Some ?e\<rparr> = None \<longrightarrow>
        currentStatus (serviceAppointmentResult_provisioned
            \<lparr>wr_data = None, wr_error = Some ?e\<rparr> ?st) = ''None'')
     \<and> (wr_data \<lparr>wr_data = None :: work_order_node option, wr_error = Some ?e\<rparr> = None \<longrightarrow>
        displayWorkOrderNumber (cpe_workOrder_provisioned
            \<lparr>wr_data = None, wr_error = Some ?e\<rparr> ?cpe) = ''Loading...'')"
    using remote_failures_toast_or_log
      [where e = ?e and st = ?st and rso = "Resolved None" and pm = "pm_init ''02i01''"
         and bam = ?bam and a = ?a and rid = "''0WO01''"
         and predictive = "\<lparr>wr_data = None, wr_error = Some ?e\<rparr>"
         and appointment = "\<lparr>wr_data = None, wr_error = Some ?e\<rparr>"
         and workOrder = "\<lparr>wr_data = None, wr_error = Some ?e\<rparr>" and cpe = ?cpe]
    by blast
  with reason sel warn rid w1 w2 w3 w4
  have "sa_out (handleConfirmBlock (Rejected ?e) (Resolved None) ?st) =
          sa_out ?st @ [RemoteCall ''updateRecord'',
                       Toast ''Error'' (message_or ?e ''Failed to block appointment'') ''error'']"
    and "bam_out (handleAddInspectionWorkPlan (Rejected ?e) ?bam) =
          bam_out ?bam @ [RemoteCall ''createInspectionWorkPlan'',
                         ConsoleError ''Error creating work plan:'',
                         Toast ''Error'' (message_or ?e ''Failed to create inspection work plan'')
                           ''error'']"
    and "pm_out (wiredData \<lparr>wr_data = None, wr_error = Some ?e\<rparr> (pm_init ''02i01'')) =
          pm_out (pm_init ''02i01'') @ [ConsoleError ''Error loading predictive data:'']"
    and "currentStatus (serviceAppointmentResult_provisioned
            \<lparr>wr_data = None, wr_error = Some ?e\<rparr> ?st) = ''None''"
    and "displayWorkOrderNumber (cpe_workOrder_provisioned
            \<lparr>wr_data = None, wr_error = Some ?e\<rparr> ?cpe) = ''Loading...''"
    by simp_all
  then show ?thesis
    unfolding out bout pout msg using reason sel warn rid by simp
qed

end
